theory Spec2Isabelle
  imports Main "HOL-Library.AList"
begin

section \<open>Python values\<close>

text \<open>
  A Python \<open>str\<close> is a sequence of Unicode code points and a \<open>bytes\<close> object a sequence
  of numbers below 256; both are lists of naturals here. \<open>py\<close> turns an ASCII literal into
  a \<open>str\<close>. An empty string is falsy, as in Python.
\<close>

type_synonym pystr = "nat list"
type_synonym bytes = "nat list"

definition py :: "string \<Rightarrow> pystr" where
  "py s = map of_char s"

text \<open>\<open>str.isspace\<close> on one code point, and \<open>str.strip()\<close> with no argument.\<close>

definition isspace :: "nat \<Rightarrow> bool" where
  "isspace c \<longleftrightarrow>
     (9 \<le> c \<and> c \<le> 13) \<or> (28 \<le> c \<and> c \<le> 32) \<or> c = 133 \<or> c = 160 \<or> c = 5760 \<or>
     (8192 \<le> c \<and> c \<le> 8202) \<or> c = 8232 \<or> c = 8233 \<or> c = 8239 \<or> c = 8287 \<or> c = 12288"

definition strip :: "pystr \<Rightarrow> pystr" where
  "strip s = rev (dropWhile isspace (rev (dropWhile isspace s)))"

definition endswith :: "pystr \<Rightarrow> pystr \<Rightarrow> bool" where
  "endswith s suffix \<longleftrightarrow>
     length suffix \<le> length s \<and> drop (length s - length suffix) s = suffix"

section \<open>The data model: \<open>self.data\<close> of \<open>PasswordDatabase\<close>\<close>

text \<open>
  A credential record is the dictionary that \<open>add_password\<close> stores: the keys \<open>id\<close>,
  \<open>created_at\<close> and \<open>updated_at\<close> are read with \<open>pwd["..."]\<close>, the category with
  \<open>pwd.get("category")\<close>, which may be absent.
\<close>

record entry =
  e_id :: pystr
  e_title :: pystr
  e_username :: pystr
  e_password :: pystr
  e_url :: pystr
  e_notes :: pystr
  e_category :: "pystr option"
  e_created_at :: pystr
  e_updated_at :: pystr

record vault =
  categories :: "pystr list"
  passwords :: "entry list"
  last_modified :: "pystr option"
  version :: pystr
  totp_secret :: "pystr option"
  username :: pystr

text \<open>The six default categories; the last one, \<open>other\<close>, receives orphaned records.\<close>

definition other :: pystr where
  "other = [20854, 20182]"

definition default_categories0 :: "pystr list" where
  "default_categories0 =
     [[32593, 31449], [24212, 29992], [37038, 31665], [38134, 34892], [35777, 20214], other]"

section \<open>Configuration (\<open>utils/config.py\<close>)\<close>

record cloud_storage =
  enabled :: bool
  storage_type :: pystr
  sync_on_save :: bool
  sync_on_open :: bool
  auto_sync_interval :: nat
  conflict_resolution :: pystr
  local_cache_path :: pystr
  remote_path :: pystr
  network_drive_path :: pystr
  last_sync_time :: "pystr option"
  sync_enabled :: bool

record config =
  database_path :: pystr
  backup_enabled :: bool
  backup_count :: nat
  backup_path :: pystr
  cloud :: cloud_storage
  config_dir :: pystr

section \<open>The file system and the library functions the code calls\<close>

text \<open>
  The file system is an association list from paths to nodes; a file has its content and
  its modification time. \<open>world\<close> is what an operation can change outside the database
  object: the file system and the in-memory configuration.
\<close>

datatype node = Dir | File (content: bytes) (mtime: nat)

type_synonym filesystem = "(pystr \<times> node) list"

record world =
  fs :: filesystem
  cfg :: config

datatype io_op =
    Read pystr | Write pystr | Copy pystr pystr | Remove pystr | Rename pystr pystr
  | Makedirs pystr | Listdir pystr

datatype exn = FileNotFoundError | PermissionError | IsADirectoryError | OSError

text \<open>
  A \<open>datetime\<close> is offset-naive or offset-aware; the number is its place on the time line
  of its kind. \<open>a > b\<close> orders two values of one kind and raises \<open>TypeError\<close> (\<open>None\<close>)
  for a naive and an aware one.
\<close>

datatype datetime = Naive int | Aware int

fun datetime_gt :: "datetime \<Rightarrow> datetime \<Rightarrow> bool option" where
  "datetime_gt (Naive a) (Naive b) = Some (b < a)"
| "datetime_gt (Aware a) (Aware b) = Some (b < a)"
| "datetime_gt (Naive a) (Aware b) = None"
| "datetime_gt (Aware a) (Naive b) = None"

text \<open>
  \<open>sys\<close> collects what the code takes from outside the repository during one operation:
  the \<open>os.path\<close> functions, the clock and the random source, the \<open>cryptography\<close> and
  \<open>json\<close> libraries, and which system calls fail (\<open>fault\<close>). A failing call raises
  before it changes anything. The library functions are parameters: the theorems hold for
  every choice of them, unless a hypothesis says otherwise. \<open>open_dir_error\<close> is what
  \<open>open\<close> raises on a directory: \<open>IsADirectoryError\<close> on POSIX, \<open>PermissionError\<close> on
  Windows.
\<close>

record sys =
  fault :: "io_op \<Rightarrow> exn option"
  writable :: "pystr \<Rightarrow> bool"
  basename :: "pystr \<Rightarrow> pystr"
  dirname :: "pystr \<Rightarrow> pystr"
  join :: "pystr \<Rightarrow> pystr \<Rightarrow> pystr"
  abspath :: "pystr \<Rightarrow> pystr"
  normpath :: "pystr \<Rightarrow> pystr"
  splitext_root :: "pystr \<Rightarrow> pystr"
  user_docs :: pystr
  now_iso :: pystr
  now_stamp :: pystr
  now_millis :: pystr
  now_mtime :: nat
  urandom16 :: bytes
  nonce :: bytes
  pbkdf2 :: "bytes \<Rightarrow> bytes \<Rightarrow> bytes"
  urlsafe_b64encode :: "bytes \<Rightarrow> bytes"
  fernet_encrypt :: "bytes \<Rightarrow> bytes \<Rightarrow> bytes \<Rightarrow> bytes option"
  fernet_decrypt :: "bytes \<Rightarrow> bytes \<Rightarrow> bytes option"
  json_dumps :: "vault \<Rightarrow> pystr"
  json_loads :: "pystr \<Rightarrow> vault option"
  fromisoformat :: "pystr \<Rightarrow> datetime option"
  open_dir_error :: exn

subsection \<open>System calls\<close>

definition exists :: "filesystem \<Rightarrow> pystr \<Rightarrow> bool" where
  "exists f p \<longleftrightarrow> map_of f p \<noteq> None"

text \<open>Modification times are kept for files only.\<close>

definition getmtime :: "filesystem \<Rightarrow> pystr \<Rightarrow> nat" where
  "getmtime f p = (case map_of f p of Some (File b m) \<Rightarrow> m | _ \<Rightarrow> 0)"

text \<open>
  \<open>os.makedirs(p, exist_ok=True)\<close>: raises when \<open>p\<close> is a file. The directory itself
  is recorded; the intermediate directories are not.
\<close>

definition makedirs :: "sys \<Rightarrow> filesystem \<Rightarrow> pystr \<Rightarrow> filesystem option" where
  "makedirs s f p =
     (if fault s (Makedirs p) \<noteq> None then None
      else case map_of f p of
             None \<Rightarrow> Some (AList.update p Dir f)
           | Some Dir \<Rightarrow> Some f
           | Some (File b m) \<Rightarrow> None)"

text \<open>
  \<open>shutil.copy2\<close> keeps the modification time of the source. A destination that is a
  directory stands for the file of the source's name in it; copying a file onto itself
  raises \<open>SameFileError\<close>. Two paths are the same file when they are equal.
\<close>

definition copy2 :: "sys \<Rightarrow> filesystem \<Rightarrow> pystr \<Rightarrow> pystr \<Rightarrow> filesystem option" where
  "copy2 s f src dst =
     (if fault s (Copy src dst) \<noteq> None then None
      else case map_of f src of
             Some (File b m) \<Rightarrow>
               (let target = (if map_of f dst = Some Dir then join s dst (basename s src)
                              else dst)
                in if target = src then None
                   else if map_of f target = Some Dir then None
                   else Some (AList.update target (File b m) f))
           | _ \<Rightarrow> None)"

definition remove :: "sys \<Rightarrow> filesystem \<Rightarrow> pystr \<Rightarrow> filesystem option" where
  "remove s f p =
     (if fault s (Remove p) \<noteq> None then None
      else case map_of f p of
             Some (File b m) \<Rightarrow> Some (AList.delete p f)
           | _ \<Rightarrow> None)"

definition rename :: "sys \<Rightarrow> filesystem \<Rightarrow> pystr \<Rightarrow> pystr \<Rightarrow> filesystem option" where
  "rename s f src dst =
     (if fault s (Rename src dst) \<noteq> None then None
      else case map_of f src of
             None \<Rightarrow> None
           | Some n \<Rightarrow> Some (AList.update dst n (AList.delete src f)))"

text \<open>\<open>open(p, "wb")\<close> followed by one \<open>write\<close>.\<close>

definition write_file :: "sys \<Rightarrow> filesystem \<Rightarrow> pystr \<Rightarrow> bytes \<Rightarrow> filesystem option" where
  "write_file s f p b =
     (if fault s (Write p) \<noteq> None then None
      else if map_of f p = Some Dir then None
      else Some (AList.update p (File b (now_mtime s)) f))"

text \<open>\<open>open(p, "rb").read()\<close>: the exception raised, or the content.\<close>

definition read_file :: "sys \<Rightarrow> filesystem \<Rightarrow> pystr \<Rightarrow> exn + bytes" where
  "read_file s f p =
     (case fault s (Read p) of
        Some e \<Rightarrow> Inl e
      | None \<Rightarrow>
          (case map_of f p of
             None \<Rightarrow> Inl FileNotFoundError
           | Some Dir \<Rightarrow> Inl (open_dir_error s)
           | Some (File b m) \<Rightarrow> Inr b))"

text \<open>\<open>os.listdir\<close>: the names of the entries whose parent directory is \<open>d\<close>.\<close>

definition listdir :: "sys \<Rightarrow> filesystem \<Rightarrow> pystr \<Rightarrow> pystr list option" where
  "listdir s f d =
     (if fault s (Listdir d) \<noteq> None \<or> map_of f d \<noteq> Some Dir then None
      else Some (map (\<lambda>(p, n). basename s p) (filter (\<lambda>(p, n). dirname s p = d \<and> p \<noteq> d) f)))"

section \<open>Path resolution: \<open>Config.get_effective_database_path\<close>\<close>

definition db_filename :: "sys \<Rightarrow> config \<Rightarrow> pystr" where
  "db_filename s c =
     (if database_path c \<noteq> [] then basename s (database_path c) else py ''passwords.db'')"

text \<open>
  The folder of the configured storage kind, when it is set and exists: the two
  \<open>return os.path.join(...)\<close> of the cloud branch.
\<close>

definition cloud_folder :: "filesystem \<Rightarrow> cloud_storage \<Rightarrow> pystr option" where
  "cloud_folder f cc =
     (if storage_type cc = py ''network_drive'' then
        (if network_drive_path cc \<noteq> [] \<and> exists f (network_drive_path cc)
         then Some (network_drive_path cc) else None)
      else if storage_type cc \<in> {py ''baidu_netdisk'', py ''onedrive'', py ''dropbox''} then
        (if remote_path cc \<noteq> [] \<and> exists f (remote_path cc)
         then Some (remote_path cc) else None)
      else None)"

definition default_database_path :: "sys \<Rightarrow> config \<Rightarrow> pystr" where
  "default_database_path s c =
     (if database_path c = [] then join s (config_dir c) (db_filename s c)
      else database_path c)"

text \<open>
  The result is \<open>None\<close> when \<open>os.makedirs\<close> of the cache folder raises: the function has
  no handler. Otherwise it is the path and the world, in which the cache folder may have
  been created.
\<close>

definition get_effective_database_path :: "sys \<Rightarrow> world \<Rightarrow> (pystr \<times> world) option" where
  "get_effective_database_path s w =
     (let c = cfg w; cc = cloud c in
      if enabled cc then
        (case cloud_folder (fs w) cc of
           Some folder \<Rightarrow> Some (join s folder (db_filename s c), w)
         | None \<Rightarrow>
             (if local_cache_path cc \<noteq> [] then
                (case makedirs s (fs w) (local_cache_path cc) of
                   None \<Rightarrow> None
                 | Some f' \<Rightarrow> Some (join s (local_cache_path cc) (db_filename s c), w\<lparr>fs := f'\<rparr>))
              else Some (default_database_path s c, w)))
      else Some (default_database_path s c, w))"

section \<open>Replication: \<open>CloudSyncManager\<close> (\<open>utils/cloud_sync.py\<close>)\<close>

definition get_remote_path :: "sys \<Rightarrow> config \<Rightarrow> pystr option" where
  "get_remote_path s c =
     (let cc = cloud c in
      if storage_type cc = py ''network_drive'' then
        (if network_drive_path cc \<noteq> [] then Some (join s (network_drive_path cc) (db_filename s c))
         else None)
      else if storage_type cc \<in> {py ''baidu_netdisk'', py ''onedrive'', py ''dropbox''} then
        (if remote_path cc \<noteq> [] then Some (join s (remote_path cc) (db_filename s c))
         else None)
      else None)"

definition check_remote_accessibility :: "sys \<Rightarrow> world \<Rightarrow> bool" where
  "check_remote_accessibility s w =
     (case get_remote_path s (cfg w) of
        None \<Rightarrow> False
      | Some rp \<Rightarrow> rp \<noteq> [] \<and> exists (fs w) (dirname s rp) \<and> writable s (dirname s rp))"

definition set_last_sync_time :: "sys \<Rightarrow> world \<Rightarrow> world" where
  "set_last_sync_time s w =
     w\<lparr>cfg := (cfg w)\<lparr>cloud := (cloud (cfg w))\<lparr>last_sync_time := Some (now_iso s)\<rparr>\<rparr>\<rparr>"

text \<open>
  The staged write of \<open>sync_to_remote\<close>: copy to \<open>remote_path + ".tmp"\<close>, then remove the
  old target and rename the temporary file onto it. Each of the three calls has its own
  handler, which returns \<open>False\<close> and keeps what the earlier calls did.
\<close>

definition push_file :: "sys \<Rightarrow> world \<Rightarrow> pystr \<Rightarrow> pystr \<Rightarrow> bool \<times> world" where
  "push_file s w local_file_path rp =
     (let temp_path = rp @ py ''.tmp'' in
      case copy2 s (fs w) local_file_path temp_path of
        None \<Rightarrow> (False, w)
      | Some f1 \<Rightarrow>
          (if exists f1 temp_path then
             (case (if exists f1 rp then remove s f1 rp else Some f1) of
                None \<Rightarrow> (False, w\<lparr>fs := f1\<rparr>)
              | Some f2 \<Rightarrow>
                  (case rename s f2 temp_path rp of
                     None \<Rightarrow> (False, w\<lparr>fs := f2\<rparr>)
                   | Some f3 \<Rightarrow> (True, set_last_sync_time s (w\<lparr>fs := f3\<rparr>))))
           else (False, w\<lparr>fs := f1\<rparr>)))"

text \<open>
  \<open>sync_to_remote(local_file_path)\<close>; an empty \<open>local_file_path\<close> stands for the default
  \<open>None\<close> (both are falsy).
\<close>

definition sync_to_remote :: "sys \<Rightarrow> world \<Rightarrow> pystr \<Rightarrow> bool \<times> world" where
  "sync_to_remote s w local_file_path =
     (if \<not> enabled (cloud (cfg w)) then (True, w)
      else
        (case (if local_file_path \<noteq> [] then Some (local_file_path, w)
               else if database_path (cfg w) \<noteq> [] \<and> exists (fs w) (database_path (cfg w))
                 then Some (database_path (cfg w), w)
               else get_effective_database_path s w) of
           None \<Rightarrow> (False, w)
         | Some (lp, w0) \<Rightarrow>
             (case get_remote_path s (cfg w0) of
                None \<Rightarrow> (False, w0)
              | Some rp \<Rightarrow>
                  (if rp = [] then (False, w0)
                   else if \<not> check_remote_accessibility s w0 then (False, w0)
                   else
                     (case makedirs s (fs w0) (dirname s rp) of
                        None \<Rightarrow> (False, w0)
                      | Some f1 \<Rightarrow>
                          (if exists f1 lp then push_file s (w0\<lparr>fs := f1\<rparr>) lp rp
                           else (False, w0\<lparr>fs := f1\<rparr>)))))))"

text \<open>
  \<open>sync_from_remote(local_file_path)\<close>. With the policy \<open>ask\<close>, or any other value, the
  code falls through and copies.
\<close>

definition pull_target :: "sys \<Rightarrow> config \<Rightarrow> pystr \<Rightarrow> pystr" where
  "pull_target s c local_file_path =
     (if local_file_path \<noteq> [] then local_file_path
      else
        (let original_db_path = database_path c in
         if original_db_path \<noteq> [] \<and>
            (case get_remote_path s c of
               None \<Rightarrow> False
             | Some rp \<Rightarrow> rp \<noteq> [] \<and> normpath s original_db_path = normpath s rp)
         then join s (user_docs s) (db_filename s c)
         else if original_db_path \<noteq> [] then original_db_path
         else join s (user_docs s) (db_filename s c)))"

definition sync_from_remote :: "sys \<Rightarrow> world \<Rightarrow> pystr \<Rightarrow> bool \<times> world" where
  "sync_from_remote s w local_file_path =
     (if \<not> enabled (cloud (cfg w)) then (True, w)
      else
        (let lp = pull_target s (cfg w) local_file_path in
         case get_remote_path s (cfg w) of
           None \<Rightarrow> (False, w)
         | Some rp \<Rightarrow>
             (if rp = [] then (False, w)
              else if \<not> exists (fs w) rp then (True, w)
              else if exists (fs w) lp \<and>
                      ((conflict_resolution (cloud (cfg w)) = py ''newer'' \<and>
                        getmtime (fs w) rp \<le> getmtime (fs w) lp) \<or>
                       conflict_resolution (cloud (cfg w)) = py ''local'')
                then (True, w)
              else
                (case makedirs s (fs w) (dirname s lp) of
                   None \<Rightarrow> (False, w)
                 | Some f1 \<Rightarrow>
                     (case copy2 s f1 rp lp of
                        None \<Rightarrow> (False, w\<lparr>fs := f1\<rparr>)
                      | Some f2 \<Rightarrow>
                          (if exists f2 lp then (True, set_last_sync_time s (w\<lparr>fs := f2\<rparr>))
                           else (False, w\<lparr>fs := f2\<rparr>)))))))"

section \<open>Key derivation and cipher: \<open>Encryption\<close> (\<open>utils/auth.py\<close>)\<close>

text \<open>
  \<open>str.encode()\<close> and \<open>bytes.decode()\<close> are UTF-8 and strict: a surrogate code point
  cannot be encoded, and an overlong form, a surrogate or a value above \<open>0x10FFFF\<close> cannot
  be decoded. \<open>None\<close> stands for the exception.
\<close>

definition utf8_char :: "nat \<Rightarrow> bytes option" where
  "utf8_char c =
     (if c < 128 then Some [c]
      else if c < 2048 then Some [192 + c div 64, 128 + c mod 64]
      else if c < 65536 then
        (if 55296 \<le> c \<and> c \<le> 57343 then None
         else Some [224 + c div 4096, 128 + (c div 64) mod 64, 128 + c mod 64])
      else if c < 1114112 then
        Some [240 + c div 262144, 128 + (c div 4096) mod 64, 128 + (c div 64) mod 64,
              128 + c mod 64]
      else None)"

fun utf8_encode :: "pystr \<Rightarrow> bytes option" where
  "utf8_encode [] = Some []"
| "utf8_encode (c # cs) =
     (case utf8_char c of
        None \<Rightarrow> None
      | Some b \<Rightarrow> (case utf8_encode cs of None \<Rightarrow> None | Some bs \<Rightarrow> Some (b @ bs)))"

definition continuation :: "nat \<Rightarrow> bool" where
  "continuation b \<longleftrightarrow> 128 \<le> b \<and> b < 192"

fun utf8_decode :: "bytes \<Rightarrow> pystr option" where
  "utf8_decode [] = Some []"
| "utf8_decode (b0 # bs) =
     (if b0 < 128 then map_option ((#) b0) (utf8_decode bs)
      else if 194 \<le> b0 \<and> b0 < 224 then
        (case bs of
           b1 # r \<Rightarrow>
             (if continuation b1
              then map_option ((#) ((b0 - 192) * 64 + (b1 - 128))) (utf8_decode r)
              else None)
         | _ \<Rightarrow> None)
      else if 224 \<le> b0 \<and> b0 < 240 then
        (case bs of
           b1 # b2 # r \<Rightarrow>
             (let c = (b0 - 224) * 4096 + (b1 - 128) * 64 + (b2 - 128) in
              if continuation b1 \<and> continuation b2 \<and> 2048 \<le> c \<and> \<not> (55296 \<le> c \<and> c \<le> 57343)
              then map_option ((#) c) (utf8_decode r)
              else None)
         | _ \<Rightarrow> None)
      else if 240 \<le> b0 \<and> b0 < 245 then
        (case bs of
           b1 # b2 # b3 # r \<Rightarrow>
             (let c = (b0 - 240) * 262144 + (b1 - 128) * 4096 + (b2 - 128) * 64 + (b3 - 128) in
              if continuation b1 \<and> continuation b2 \<and> continuation b3 \<and>
                 65536 \<le> c \<and> c < 1114112
              then map_option ((#) c) (utf8_decode r)
              else None)
         | _ \<Rightarrow> None)
      else None)"

text \<open>
  \<open>generate_key(master_password, salt=None)\<close>: \<open>None\<close> when \<open>master_password.encode()\<close>
  raises, otherwise the key and the salt used.
\<close>

definition generate_key :: "sys \<Rightarrow> pystr \<Rightarrow> bytes option \<Rightarrow> (bytes \<times> bytes) option" where
  "generate_key s master_password salt_arg =
     (let salt = (case salt_arg of None \<Rightarrow> urandom16 s | Some x \<Rightarrow> x) in
      case utf8_encode master_password of
        None \<Rightarrow> None
      | Some pw \<Rightarrow> Some (urlsafe_b64encode s (pbkdf2 s pw salt), salt))"

text \<open>
  \<open>encrypt\<close> has no handler: \<open>None\<close> is an exception of \<open>Fernet(key)\<close> or of
  \<open>data.encode()\<close>. \<open>decrypt\<close> catches every exception and returns \<open>None\<close>.
\<close>

definition encrypt :: "sys \<Rightarrow> pystr \<Rightarrow> bytes \<Rightarrow> bytes option" where
  "encrypt s d k =
     (case utf8_encode d of
        None \<Rightarrow> None
      | Some b \<Rightarrow> fernet_encrypt s k (nonce s) b)"

definition decrypt :: "sys \<Rightarrow> bytes \<Rightarrow> bytes \<Rightarrow> pystr option" where
  "decrypt s encrypted_data k =
     (case fernet_decrypt s k encrypted_data of
        None \<Rightarrow> None
      | Some b \<Rightarrow> utf8_decode b)"

section \<open>The record store: \<open>PasswordDatabase\<close> (\<open>database/password_db.py\<close>)\<close>

datatype error_code =
  FILE_NOT_FOUND | DATA_CORRUPTED | INVALID_KEY | PERMISSION_DENIED | UNKNOWN_ERROR

text \<open>
  The attributes of the object. \<open>create\<close> stores the list object \<open>default_categories\<close>
  itself in \<open>data["categories"]\<close>, so that a later \<open>append\<close>, \<open>remove\<close> or item
  assignment on the categories changes both; \<open>shared_categories\<close> records that the two
  are one object.
\<close>

record database =
  db_path :: "pystr option"
  key :: "bytes option"
  salt :: "bytes option"
  data :: vault
  default_categories :: "pystr list"
  shared_categories :: bool
  last_error :: "error_code option"

definition init :: database where
  "init =
     \<lparr>db_path = None, key = None, salt = None,
      data = \<lparr>categories = [], passwords = [], last_modified = None, version = py ''1.0'',
              totp_secret = None, username = []\<rparr>,
      default_categories = default_categories0, shared_categories = False,
      last_error = None\<rparr>"

definition set_categories :: "database \<Rightarrow> pystr list \<Rightarrow> database" where
  "set_categories db cs =
     db\<lparr>data := (data db)\<lparr>categories := cs\<rparr>,
        default_categories := (if shared_categories db then cs else default_categories db)\<rparr>"

definition set_passwords :: "database \<Rightarrow> entry list \<Rightarrow> database" where
  "set_passwords db ps = db\<lparr>data := (data db)\<lparr>passwords := ps\<rparr>\<rparr>"

subsection \<open>Backups\<close>

text \<open>The loop of \<open>os.remove\<close> calls: the first one that raises ends it.\<close>

fun remove_all :: "sys \<Rightarrow> filesystem \<Rightarrow> pystr list \<Rightarrow> filesystem" where
  "remove_all s f [] = f"
| "remove_all s f (p # ps) =
     (case remove s f p of None \<Rightarrow> f | Some f' \<Rightarrow> remove_all s f' ps)"

text \<open>
  \<open>_cleanup_backups\<close>: \<open>sort(key=mtime, reverse=True)\<close> is stable, which is a stable
  ascending sort of the reversed list, reversed.
\<close>

definition cleanup_backups :: "sys \<Rightarrow> world \<Rightarrow> pystr \<Rightarrow> filesystem" where
  "cleanup_backups s w backup_dir =
     (case listdir s (fs w) backup_dir of
        None \<Rightarrow> fs w
      | Some names \<Rightarrow>
          (let backup_files =
                 map (\<lambda>f. join s backup_dir f) (filter (\<lambda>f. endswith f (py ''.bak'')) names);
               sorted_files = rev (sort_key (getmtime (fs w)) (rev backup_files))
           in remove_all s (fs w) (drop (backup_count (cfg w)) sorted_files)))"

text \<open>\<open>_create_backup\<close>: every failure is caught; what was done before it stays.\<close>

definition create_backup :: "sys \<Rightarrow> world \<Rightarrow> pystr \<Rightarrow> world" where
  "create_backup s w path =
     (if \<not> backup_enabled (cfg w) then w
      else
        (let backup_dir =
               (if backup_path (cfg w) \<noteq> [] then backup_path (cfg w)
                else join s (dirname s path) (py ''backups''))
         in case makedirs s (fs w) backup_dir of
              None \<Rightarrow> w
            | Some f1 \<Rightarrow>
                (let backup_file =
                       join s backup_dir
                         (splitext_root s (basename s path) @ py ''_'' @ now_stamp s @ py ''.bak'')
                 in case copy2 s f1 path backup_file of
                      None \<Rightarrow> w\<lparr>fs := f1\<rparr>
                    | Some f2 \<Rightarrow> w\<lparr>fs := cleanup_backups s (w\<lparr>fs := f2\<rparr>) backup_dir\<rparr>)))"

subsection \<open>\<open>save\<close>\<close>

text \<open>
  The steps of \<open>save\<close> after the ciphertext is there: the backup when the file exists,
  the parent directory, the write of salt and ciphertext, the push. The result of
  \<open>sync_to_remote\<close> is dropped. Opening the file truncates it before
  \<open>self.salt + encrypted_data\<close> is evaluated, which raises when there is no salt.
\<close>

definition store :: "sys \<Rightarrow> world \<Rightarrow> database \<Rightarrow> pystr \<Rightarrow> bytes \<Rightarrow> bool \<times> world" where
  "store s w db path encrypted_data =
     (let w1 = (if exists (fs w) path then create_backup s w path else w) in
      case makedirs s (fs w1) (dirname s (abspath s path)) of
        None \<Rightarrow> (False, w1)
      | Some f2 \<Rightarrow>
          (case salt db of
             None \<Rightarrow>
               (case write_file s f2 path [] of
                  None \<Rightarrow> (False, w1\<lparr>fs := f2\<rparr>)
                | Some f3 \<Rightarrow> (False, w1\<lparr>fs := f3\<rparr>))
           | Some sl \<Rightarrow>
               (case write_file s f2 path (sl @ encrypted_data) of
                  None \<Rightarrow> (False, w1\<lparr>fs := f2\<rparr>)
                | Some f3 \<Rightarrow>
                    (let w3 = w1\<lparr>fs := f3\<rparr> in
                     if enabled (cloud (cfg w3)) \<and> sync_on_save (cloud (cfg w3))
                     then (True, snd (sync_to_remote s w3 path))
                     else (True, w3)))))"

definition save :: "sys \<Rightarrow> world \<Rightarrow> database \<Rightarrow> bool \<times> database \<times> world" where
  "save s w db =
     (let db1 = db\<lparr>data := (data db)\<lparr>last_modified := Some (now_iso s)\<rparr>\<rparr> in
      case key db1 of
        None \<Rightarrow> (False, db1, w)
      | Some k \<Rightarrow>
          (case encrypt s (json_dumps s (data db1)) k of
             None \<Rightarrow> (False, db1, w)
           | Some encrypted_data \<Rightarrow>
               (case db_path db1 of
                  None \<Rightarrow> (False, db1, w)
                | Some path \<Rightarrow>
                    (let (ok, w') = store s w db1 path encrypted_data in (ok, db1, w')))))"

subsection \<open>Records\<close>

text \<open>The index of the first record with the identifier, as the \<open>enumerate\<close> loops find it.\<close>

fun index_of_id :: "pystr \<Rightarrow> entry list \<Rightarrow> nat option" where
  "index_of_id i [] = None"
| "index_of_id i (p # ps) =
     (if e_id p = i then Some 0 else map_option Suc (index_of_id i ps))"

definition add_password :: "sys \<Rightarrow> world \<Rightarrow> database \<Rightarrow> entry \<Rightarrow> bool \<times> database \<times> world" where
  "add_password s w db password_data =
     (let pd = password_data\<lparr>e_id := now_millis s, e_created_at := now_iso s,
                             e_updated_at := now_iso s\<rparr>
      in save s w (set_passwords db (passwords (data db) @ [pd])))"

definition update_password ::
    "sys \<Rightarrow> world \<Rightarrow> database \<Rightarrow> pystr \<Rightarrow> entry \<Rightarrow> bool \<times> database \<times> world" where
  "update_password s w db password_id password_data =
     (case index_of_id password_id (passwords (data db)) of
        None \<Rightarrow> (False, db, w)
      | Some i \<Rightarrow>
          (let pwd = passwords (data db) ! i;
               pd = password_data\<lparr>e_id := password_id, e_created_at := e_created_at pwd,
                                  e_updated_at := now_iso s\<rparr>
           in save s w (set_passwords db ((passwords (data db))[i := pd]))))"

definition delete_password ::
    "sys \<Rightarrow> world \<Rightarrow> database \<Rightarrow> pystr \<Rightarrow> bool \<times> database \<times> world" where
  "delete_password s w db password_id =
     (case index_of_id password_id (passwords (data db)) of
        None \<Rightarrow> (False, db, w)
      | Some i \<Rightarrow>
          save s w (set_passwords db
            (take i (passwords (data db)) @ drop (Suc i) (passwords (data db)))))"

definition update_totp_secret ::
    "sys \<Rightarrow> world \<Rightarrow> database \<Rightarrow> pystr option \<Rightarrow> pystr \<Rightarrow> bool \<times> database \<times> world" where
  "update_totp_secret s w db secret name =
     save s w (db\<lparr>data := (data db)\<lparr>totp_secret := secret, username := name\<rparr>\<rparr>)"

subsection \<open>Categories\<close>

definition add_category :: "sys \<Rightarrow> world \<Rightarrow> database \<Rightarrow> pystr \<Rightarrow> bool \<times> database \<times> world" where
  "add_category s w db category =
     (if category \<notin> set (categories (data db))
      then save s w (set_categories db (categories (data db) @ [category]))
      else (True, db, w))"

text \<open>The loop over the records of \<open>delete_category\<close> and of \<open>rename_category\<close>.\<close>

definition move_records :: "pystr \<Rightarrow> pystr \<Rightarrow> entry list \<Rightarrow> entry list" where
  "move_records category target ps =
     map (\<lambda>pwd. if e_category pwd = Some category then pwd\<lparr>e_category := Some target\<rparr> else pwd) ps"

text \<open>\<open>list.remove\<close> takes out the first occurrence: \<open>remove1\<close>.\<close>

definition delete_category :: "sys \<Rightarrow> world \<Rightarrow> database \<Rightarrow> pystr \<Rightarrow> bool \<times> database \<times> world" where
  "delete_category s w db category =
     (if category \<in> set (categories (data db)) then
        (let db1 = set_categories db (remove1 category (categories (data db)));
             db2 = set_passwords db1 (move_records category other (passwords (data db1)))
         in save s w db2)
      else (False, db, w))"

text \<open>\<open>categories[categories.index(old_name)] = new_name\<close>.\<close>

fun replace_first :: "pystr \<Rightarrow> pystr \<Rightarrow> pystr list \<Rightarrow> pystr list" where
  "replace_first old_name new_name [] = []"
| "replace_first old_name new_name (c # cs) =
     (if c = old_name then new_name # cs else c # replace_first old_name new_name cs)"

definition rename_category ::
    "sys \<Rightarrow> world \<Rightarrow> database \<Rightarrow> pystr \<Rightarrow> pystr \<Rightarrow> bool \<times> database \<times> world" where
  "rename_category s w db old_name new_name =
     (if old_name \<notin> set (categories (data db)) then (False, db, w)
      else if new_name \<in> set (categories (data db)) then (False, db, w)
      else
        (let db1 = set_categories db (replace_first old_name new_name (categories (data db)));
             db2 = set_passwords db1 (move_records old_name new_name (passwords (data db1)))
         in save s w db2))"

subsection \<open>Import\<close>

text \<open>The first loop of \<open>_merge_data\<close>: an imported name is appended unless it is there.\<close>

fun merge_categories :: "pystr list \<Rightarrow> pystr list \<Rightarrow> pystr list" where
  "merge_categories cs [] = cs"
| "merge_categories cs (c # imported) =
     merge_categories (if c \<in> set cs then cs else cs @ [c]) imported"

text \<open>
  The second loop. \<open>existing_ids\<close> is computed once, before the loop. A record with a
  new identifier is appended; otherwise the first record with its identifier is replaced
  when the imported \<open>updated_at\<close> is later. The flag is \<open>False\<close> when
  \<open>datetime.fromisoformat\<close> or the comparison raised: the records merged so far stay.
\<close>

fun merge_passwords ::
    "sys \<Rightarrow> pystr list \<Rightarrow> entry list \<Rightarrow> entry list \<Rightarrow> bool \<times> entry list" where
  "merge_passwords s existing_ids cur [] = (True, cur)"
| "merge_passwords s existing_ids cur (pwd # imported) =
     (if e_id pwd \<notin> set existing_ids then merge_passwords s existing_ids (cur @ [pwd]) imported
      else
        (case index_of_id (e_id pwd) cur of
           None \<Rightarrow> merge_passwords s existing_ids cur imported
         | Some i \<Rightarrow>
             (case fromisoformat s (e_updated_at pwd) of
                None \<Rightarrow> (False, cur)
              | Some import_time \<Rightarrow>
                  (case fromisoformat s (e_updated_at (cur ! i)) of
                     None \<Rightarrow> (False, cur)
                   | Some existing_time \<Rightarrow>
                       (case datetime_gt import_time existing_time of
                          None \<Rightarrow> (False, cur)
                        | Some newer \<Rightarrow>
                            merge_passwords s existing_ids
                              (if newer then cur[i := pwd] else cur) imported)))))"

definition merge_data :: "sys \<Rightarrow> database \<Rightarrow> vault \<Rightarrow> bool \<times> database" where
  "merge_data s db imported_data =
     (let db1 = set_categories db
                  (merge_categories (categories (data db)) (categories imported_data));
          (ok, ps) = merge_passwords s (map e_id (passwords (data db1))) (passwords (data db1))
                       (passwords imported_data)
      in (ok, set_passwords db1 ps))"

definition import_data ::
    "sys \<Rightarrow> world \<Rightarrow> database \<Rightarrow> pystr \<Rightarrow> pystr \<Rightarrow> bool \<times> database \<times> world" where
  "import_data s w db import_path password =
     (case read_file s (fs w) import_path of
        Inl e \<Rightarrow> (False, db, w)
      | Inr encrypted_data \<Rightarrow>
          (case generate_key s password (Some (take 16 encrypted_data)) of
             None \<Rightarrow> (False, db, w)
           | Some (import_key, sl) \<Rightarrow>
               (case decrypt s (drop 16 encrypted_data) import_key of
                  None \<Rightarrow> (False, db, w)
                | Some decrypted_data \<Rightarrow>
                    (if decrypted_data = [] then (False, db, w)
                     else
                       (case json_loads s decrypted_data of
                          None \<Rightarrow> (False, db, w)
                        | Some imported_data \<Rightarrow>
                            (let (ok, db1) = merge_data s db imported_data in
                             if ok then save s w db1 else (False, db1, w)))))))"

subsection \<open>\<open>open\<close>\<close>

definition failed :: "database \<Rightarrow> error_code \<Rightarrow> bool \<times> database" where
  "failed db e = (False, db\<lparr>last_error := Some e\<rparr>)"

text \<open>
  The \<open>try\<close> block of \<open>open\<close>, once \<open>self.db_path\<close> is chosen. The parsed vault is
  assigned to \<open>self.data\<close> before the stored second-factor secret is compared.
\<close>

definition open_file :: "sys \<Rightarrow> filesystem \<Rightarrow> database \<Rightarrow> pystr \<Rightarrow> pystr \<Rightarrow> bool \<times> database" where
  "open_file s f db path master_password =
     (if \<not> exists f path then failed db FILE_NOT_FOUND
      else
        (case read_file s f path of
           Inl FileNotFoundError \<Rightarrow> failed db FILE_NOT_FOUND
         | Inl PermissionError \<Rightarrow> failed db PERMISSION_DENIED
         | Inl IsADirectoryError \<Rightarrow> failed db UNKNOWN_ERROR
         | Inl OSError \<Rightarrow> failed db UNKNOWN_ERROR
         | Inr encrypted_data \<Rightarrow>
             (if length encrypted_data < 16 then failed db DATA_CORRUPTED
              else
                (case generate_key s master_password (Some (take 16 encrypted_data)) of
                   None \<Rightarrow> failed db UNKNOWN_ERROR
                 | Some (k, sl) \<Rightarrow>
                     (let db1 = db\<lparr>key := Some k, salt := Some sl\<rparr> in
                      case decrypt s (drop 16 encrypted_data) k of
                        None \<Rightarrow> failed db1 INVALID_KEY
                      | Some decrypted_data \<Rightarrow>
                          (if decrypted_data = [] then failed db1 INVALID_KEY
                           else
                             (case json_loads s decrypted_data of
                                None \<Rightarrow> failed db1 DATA_CORRUPTED
                              | Some d \<Rightarrow>
                                  (let db2 = db1\<lparr>data := d, shared_categories := False\<rparr> in
                                   case totp_secret d of
                                     None \<Rightarrow> (True, db2)
                                   | Some stored \<Rightarrow>
                                       (if stored \<noteq> [] \<and> strip master_password \<noteq> strip stored
                                        then failed db2 INVALID_KEY
                                        else (True, db2))))))))))"

text \<open>
  The part of \<open>open\<close> before the \<open>try\<close>: which file is opened. With cloud storage
  enabled it is the effective path, after the pull when \<open>sync_on_open\<close> is set, if a
  file is there, else the caller's path if a file is there, else none
  (\<open>FILE_NOT_FOUND\<close>). The outer \<open>None\<close> is an exception of the path resolution, which
  has no handler.
\<close>

definition choose_path :: "sys \<Rightarrow> world \<Rightarrow> pystr \<Rightarrow> (pystr option \<times> world) option" where
  "choose_path s w path =
     (if enabled (cloud (cfg w)) then
        (case get_effective_database_path s w of
           None \<Rightarrow> None
         | Some (cloud_db_path, w1) \<Rightarrow>
             (let w2 = (if sync_on_open (cloud (cfg w1))
                        then snd (sync_from_remote s w1 cloud_db_path) else w1)
              in if exists (fs w2) cloud_db_path then Some (Some cloud_db_path, w2)
                 else if exists (fs w2) path then Some (Some path, w2)
                 else Some (None, w2)))
      else Some (Some path, w))"

text \<open>
  \<open>open(db_path, master_password)\<close>. The periodic timer that a successful open starts is
  not part of the model.
\<close>

definition open_db ::
    "sys \<Rightarrow> world \<Rightarrow> database \<Rightarrow> pystr \<Rightarrow> pystr \<Rightarrow> (bool \<times> database \<times> world) option" where
  "open_db s w db path master_password =
     (let db0 = db\<lparr>last_error := None\<rparr> in
      case choose_path s w path of
        None \<Rightarrow> None
      | Some (None, w2) \<Rightarrow> Some (False, db0\<lparr>last_error := Some FILE_NOT_FOUND\<rparr>, w2)
      | Some (Some p, w2) \<Rightarrow>
          (let (ok, db') = open_file s (fs w2) (db0\<lparr>db_path := Some p\<rparr>) p master_password
           in Some (ok, db', w2)))"

subsection \<open>\<open>create\<close>\<close>

definition set_database_path :: "world \<Rightarrow> pystr \<Rightarrow> world" where
  "set_database_path w p = w\<lparr>cfg := (cfg w)\<lparr>database_path := p\<rparr>\<rparr>"

text \<open>The copy to the cloud location after the first save, with its handler.\<close>

definition publish :: "sys \<Rightarrow> world \<Rightarrow> database \<Rightarrow> pystr \<Rightarrow> pystr \<Rightarrow> database \<times> world" where
  "publish s w db path effective_path =
     (if effective_path \<noteq> path \<and> exists (fs w) path then
        (case makedirs s (fs w) (dirname s effective_path) of
           None \<Rightarrow> (db, set_database_path w path)
         | Some f1 \<Rightarrow>
             (case copy2 s f1 path effective_path of
                None \<Rightarrow> (db, set_database_path (w\<lparr>fs := f1\<rparr>) path)
              | Some f2 \<Rightarrow>
                  (db\<lparr>db_path := Some effective_path\<rparr>,
                   set_database_path (w\<lparr>fs := f2\<rparr>) effective_path)))
      else (db, set_database_path w path))"

text \<open>
  \<open>create(db_path, master_password, totp_secret, username)\<close>. Both branches of the first
  test on the effective path leave \<open>self.db_path = db_path\<close>. \<open>None\<close> is an exception
  that leaves \<open>create\<close>: the path resolution and \<open>generate_key\<close> have no handler.
\<close>

definition create ::
    "sys \<Rightarrow> world \<Rightarrow> database \<Rightarrow> pystr \<Rightarrow> pystr \<Rightarrow> pystr option \<Rightarrow> pystr \<Rightarrow>
     (bool \<times> database \<times> world) option" where
  "create s w db path master_password secret name =
     (case (if enabled (cloud (cfg w))
            then map_option snd (get_effective_database_path s (set_database_path w path))
            else Some w) of
        None \<Rightarrow> None
      | Some w1 \<Rightarrow>
          (case generate_key s master_password None of
             None \<Rightarrow> None
           | Some (k, sl) \<Rightarrow>
               (let db1 = db\<lparr>db_path := Some path, key := Some k, salt := Some sl,
                             data := \<lparr>categories = default_categories db, passwords = [],
                                      last_modified = Some (now_iso s), version = py ''1.0'',
                                      totp_secret = secret, username = name\<rparr>,
                             shared_categories := True\<rparr>;
                    (ok, db2, w2) = save s w1 db1
                in if \<not> ok then Some (False, db2, w2)
                   else if enabled (cloud (cfg w2)) then
                     (case get_effective_database_path s (set_database_path w2 path) of
                        None \<Rightarrow> None
                      | Some (effective_path, w3) \<Rightarrow>
                          (let (db3, w4) = publish s w3 db2 path effective_path
                           in Some (True, db3, w4)))
                   else Some (True, db2, set_database_path w2 path))))"

subsection \<open>Sequences of operations\<close>

datatype operation =
    AddPassword entry
  | UpdatePassword pystr entry
  | DeletePassword pystr
  | UpdateTotpSecret "pystr option" pystr
  | AddCategory pystr
  | DeleteCategory pystr
  | RenameCategory pystr pystr
  | ImportData pystr pystr

fun apply_operation :: "sys \<Rightarrow> operation \<Rightarrow> database \<times> world \<Rightarrow> database \<times> world" where
  "apply_operation s (AddPassword e) (db, w) = snd (add_password s w db e)"
| "apply_operation s (UpdatePassword i e) (db, w) = snd (update_password s w db i e)"
| "apply_operation s (DeletePassword i) (db, w) = snd (delete_password s w db i)"
| "apply_operation s (UpdateTotpSecret t n) (db, w) = snd (update_totp_secret s w db t n)"
| "apply_operation s (AddCategory c) (db, w) = snd (add_category s w db c)"
| "apply_operation s (DeleteCategory c) (db, w) = snd (delete_category s w db c)"
| "apply_operation s (RenameCategory c n) (db, w) = snd (rename_category s w db c n)"
| "apply_operation s (ImportData p k) (db, w) = snd (import_data s w db p k)"

text \<open>Each operation runs in the environment of its own moment.\<close>

fun run :: "(sys \<times> operation) list \<Rightarrow> database \<times> world \<Rightarrow> database \<times> world" where
  "run [] st = st"
| "run ((s, operation) # rest) st = run rest (apply_operation s operation st)"

section \<open>What the round trip assumes of the libraries\<close>

text \<open>
  \<open>encodable\<close>: a \<open>str\<close> that \<open>encode()\<close> accepts, that is, one without surrogate code
  points. \<open>fernet_sound\<close>: for a key that is the URL-safe base64 form of 32 bytes,
  \<open>Fernet(key).encrypt\<close> returns a token, whatever the time and the initialisation
  vector, and \<open>Fernet(key).decrypt\<close> of that token returns the plaintext.
  \<open>pbkdf2_sound\<close>: \<open>PBKDF2HMAC(length=32)\<close> derives 32 bytes.
\<close>

definition encodable :: "pystr \<Rightarrow> bool" where
  "encodable t \<longleftrightarrow> list_all (\<lambda>c. c < 1114112 \<and> \<not> (55296 \<le> c \<and> c \<le> 57343)) t"

definition fernet_sound :: "sys \<Rightarrow> bool" where
  "fernet_sound s \<longleftrightarrow>
     (\<forall>raw n m. length raw = 32 \<longrightarrow>
        (\<exists>t. fernet_encrypt s (urlsafe_b64encode s raw) n m = Some t \<and>
             fernet_decrypt s (urlsafe_b64encode s raw) t = Some m))"

definition pbkdf2_sound :: "sys \<Rightarrow> bool" where
  "pbkdf2_sound s \<longleftrightarrow> (\<forall>pw sl. length (pbkdf2 s pw sl) = 32)"

section \<open>The merge, as the specification words it\<close>

text \<open>
  The specification of import: records are unioned by identifier, and for an identifier
  on both sides the imported record wins when its \<open>updated_at\<close> is strictly later.
  \<open>merged_records\<close> says this directly, to be compared with the loops of
  \<open>_merge_data\<close>: each live record is kept or replaced in place, and the imported
  records with new identifiers follow. \<open>comparable\<close>: the timestamps of the records that
  share an identifier can be parsed and compared, that is, both are offset-naive or both
  are offset-aware.
\<close>

definition later :: "sys \<Rightarrow> entry \<Rightarrow> entry \<Rightarrow> bool" where
  "later s p e \<longleftrightarrow>
     (case fromisoformat s (e_updated_at p) of
        None \<Rightarrow> False
      | Some a \<Rightarrow>
          (case fromisoformat s (e_updated_at e) of
             None \<Rightarrow> False
           | Some b \<Rightarrow> datetime_gt a b = Some True))"

definition reconcile :: "sys \<Rightarrow> entry list \<Rightarrow> entry \<Rightarrow> entry" where
  "reconcile s imported e =
     (case find (\<lambda>p. e_id p = e_id e) imported of
        None \<Rightarrow> e
      | Some p \<Rightarrow> if later s p e then p else e)"

definition merged_records :: "sys \<Rightarrow> entry list \<Rightarrow> entry list \<Rightarrow> entry list" where
  "merged_records s live imported =
     map (reconcile s imported) live @
     filter (\<lambda>p. e_id p \<notin> set (map e_id live)) imported"

definition comparable :: "sys \<Rightarrow> entry list \<Rightarrow> entry list \<Rightarrow> bool" where
  "comparable s live imported \<longleftrightarrow>
     (\<forall>e \<in> set live. \<forall>p \<in> set imported. e_id p = e_id e \<longrightarrow>
        (\<exists>a b. fromisoformat s (e_updated_at p) = Some a \<and>
               fromisoformat s (e_updated_at e) = Some b \<and> datetime_gt a b \<noteq> None))"

section \<open>A concrete environment\<close>

text \<open>
  The theorems below hold for every environment. Their instances are evaluated in this
  one: POSIX paths, no failing system call, and small stand-ins for the libraries. The
  stand-in cipher prefixes the plaintext with the key and accepts a token only with that
  prefix; the key derivation pads secret and salt to 32 bytes, and base64 is left out.
  \<open>json.loads\<close> knows one text, \<open>toy_vault_json\<close>, which is what \<open>json.dumps\<close> writes
  for \<open>toy_vault\<close>; \<open>json.dumps\<close> itself writes a placeholder, since no instance looks
  into the text that \<open>save\<close> writes. \<open>fromisoformat\<close> reads the fourteen digits of date
  and time as one number, which orders timestamps as the dates do; a timestamp with an
  offset (\<open>+00:00\<close>) is aware, any other naive.
\<close>

definition posix_basename :: "pystr \<Rightarrow> pystr" where
  "posix_basename p = rev (takeWhile (\<lambda>c. c \<noteq> 47) (rev p))"

definition posix_dirname :: "pystr \<Rightarrow> pystr" where
  "posix_dirname p =
     (let head = rev (dropWhile (\<lambda>c. c \<noteq> 47) (rev p)) in
      if head \<noteq> [] \<and> \<not> list_all (\<lambda>c. c = 47) head
      then rev (dropWhile (\<lambda>c. c = 47) (rev head)) else head)"

definition posix_join :: "pystr \<Rightarrow> pystr \<Rightarrow> pystr" where
  "posix_join a b =
     (if b \<noteq> [] \<and> hd b = 47 then b
      else if a = [] \<or> last a = 47 then a @ b
      else a @ [47] @ b)"

definition posix_splitext_root :: "pystr \<Rightarrow> pystr" where
  "posix_splitext_root p =
     (let ext = rev (takeWhile (\<lambda>c. c \<noteq> 46) (rev p)) in
      if length ext < length p \<and> \<not> list_all (\<lambda>c. c = 46) (take (length p - length ext) p)
      then take (length p - length ext - 1) p else p)"

definition toy_encrypt :: "bytes \<Rightarrow> bytes \<Rightarrow> bytes \<Rightarrow> bytes option" where
  "toy_encrypt k n b = (if length k = 32 then Some (k @ b) else None)"

definition toy_decrypt :: "bytes \<Rightarrow> bytes \<Rightarrow> bytes option" where
  "toy_decrypt k t =
     (if length k = 32 \<and> take 32 t = k then Some (drop 32 t) else None)"

definition toy_vault :: vault where
  "toy_vault =
     \<lparr>categories = [py ''Bank'', py ''Email''], passwords = [], last_modified = None,
      version = py ''1.0'', totp_secret = Some (py ''JBSWY3DPEHPK3PXP''), username = []\<rparr>"

definition toy_vault_json :: pystr where
  \<open>toy_vault_json =
     py ''{"categories": ["Bank", "Email"], "passwords": [], "last_modified": null, '' @
     py ''"version": "1.0", "totp_secret": "JBSWY3DPEHPK3PXP", "username": ""}''\<close>

definition toy_fromisoformat :: "pystr \<Rightarrow> datetime option" where
  "toy_fromisoformat t =
     (let ds = take 14 (filter (\<lambda>c. 48 \<le> c \<and> c \<le> 57) t);
          n = int (foldl (\<lambda>a c. 10 * a + (c - 48)) 0 ds)
      in if ds = [] then None
         else if 43 \<in> set t then Some (Aware n) else Some (Naive n))"

definition posix :: sys where
  "posix =
     \<lparr>fault = (\<lambda>c. None), writable = (\<lambda>p. True),
      basename = posix_basename, dirname = posix_dirname, join = posix_join,
      abspath = (\<lambda>p. p), normpath = (\<lambda>p. p), splitext_root = posix_splitext_root,
      user_docs = py ''/home/u/Documents'',
      now_iso = py ''2024-05-01T10:00:00'', now_stamp = py ''20240501_100000'',
      now_millis = py ''1714557600000'', now_mtime = 7,
      urandom16 = replicate 16 1, nonce = [],
      pbkdf2 = (\<lambda>pw sl. take 32 (pw @ sl @ replicate 32 0)),
      urlsafe_b64encode = (\<lambda>b. b),
      fernet_encrypt = toy_encrypt, fernet_decrypt = toy_decrypt,
      json_dumps = (\<lambda>v. py ''<vault>''),
      json_loads = (\<lambda>t. if t = toy_vault_json then Some toy_vault else None),
      fromisoformat = toy_fromisoformat, open_dir_error = IsADirectoryError\<rparr>"

definition local_config :: config where
  "local_config =
     \<lparr>database_path = py ''/home/u/vault.db'', backup_enabled = True, backup_count = 5,
      backup_path = [],
      cloud = \<lparr>enabled = False, storage_type = py ''local'', sync_on_save = True,
               sync_on_open = True, auto_sync_interval = 300,
               conflict_resolution = py ''newer'', local_cache_path = [], remote_path = [],
               network_drive_path = [], last_sync_time = None, sync_enabled = True\<rparr>,
      config_dir = py ''/home/u/.passwordmanager''\<rparr>"

definition bank_entry :: entry where
  "bank_entry =
     \<lparr>e_id = py ''1700000000001'', e_title = py ''Bank'', e_username = py ''u'',
      e_password = py ''p'', e_url = [], e_notes = [], e_category = Some (py ''Bank''),
      e_created_at = py ''2024-01-01T09:00:00'', e_updated_at = py ''2024-01-01T09:00:00''\<rparr>"

definition email_entry :: entry where
  "email_entry =
     \<lparr>e_id = py ''1700000000002'', e_title = py ''Mail'', e_username = py ''u'',
      e_password = py ''q'', e_url = [], e_notes = [], e_category = Some (py ''Email''),
      e_created_at = py ''2024-01-02T09:00:00'', e_updated_at = py ''2024-01-02T09:00:00''\<rparr>"

definition session :: database where
  "session =
     \<lparr>db_path = Some (py ''/home/u/vault.db''), key = Some (replicate 32 3),
      salt = Some (replicate 16 1),
      data = \<lparr>categories = [py ''Bank'', py ''Email'', other],
              passwords = [bank_entry, email_entry], last_modified = None,
              version = py ''1.0'', totp_secret = None, username = []\<rparr>,
      default_categories = default_categories0, shared_categories = False,
      last_error = None\<rparr>"

definition home :: world where
  "home = \<lparr>fs = [(py ''/home/u'', Dir)], cfg = local_config\<rparr>"

definition nas_config :: config where
  "nas_config =
     local_config\<lparr>cloud := (cloud local_config)\<lparr>enabled := True,
        storage_type := py ''network_drive'', network_drive_path := py ''/mnt/nas''\<rparr>\<rparr>"

definition nas_cached_config :: config where
  "nas_cached_config =
     nas_config\<lparr>cloud := (cloud nas_config)\<lparr>local_cache_path := py ''/home/u/cache''\<rparr>\<rparr>"

definition nas_world :: world where
  "nas_world =
     \<lparr>fs = [(py ''/home/u'', Dir), (py ''/mnt/nas'', Dir),
            (py ''/home/u/vault.db'', File (replicate 16 1 @ [9, 9, 9]) 5),
            (py ''/mnt/nas/vault.db'', File (replicate 16 1 @ [8, 8]) 3)],
      cfg = nas_config\<rparr>"

definition rename_fails :: sys where
  "rename_fails = posix\<lparr>fault := (\<lambda>c. case c of Rename a b \<Rightarrow> Some OSError | _ \<Rightarrow> None)\<rparr>"

definition copies_fail :: sys where
  "copies_fail = posix\<lparr>fault := (\<lambda>c. case c of Copy a b \<Rightarrow> Some OSError | _ \<Rightarrow> None)\<rparr>"

definition rekeyed_world :: world where
  "rekeyed_world =
     \<lparr>fs = [(py ''/home/u'', Dir),
            (py ''/home/u/vault.db'',
             File (replicate 16 1 @ (py ''OLDSECRET'' @ replicate 16 1 @ replicate 7 0) @
                   toy_vault_json) 5)],
      cfg = local_config\<rparr>"

definition stub_world :: world where
  "stub_world =
     \<lparr>fs = [(py ''/home/u'', Dir), (py ''/home/u/vault.db'', File (replicate 16 1) 5),
            (py ''/home/u/short.db'', File [1, 2, 3, 4, 5] 5)],
      cfg = local_config\<rparr>"

definition created :: database where
  "created =
     init\<lparr>db_path := Some (py ''/home/u/vault.db''),
          key := Some (py ''JBSWY3DPEHPK3PXP'' @ replicate 16 1),
          salt := Some (replicate 16 1),
          data := \<lparr>categories = default_categories0, passwords = [],
                   last_modified = Some (py ''2024-05-01T10:00:00''), version = py ''1.0'',
                   totp_secret = Some (py ''JBSWY3DPEHPK3PXP''), username = []\<rparr>,
          shared_categories := True\<rparr>"

definition home_created :: world where
  "home_created =
     home\<lparr>fs := fs home @
        [(py ''/home/u/vault.db'',
          File (replicate 16 1 @ (py ''JBSWY3DPEHPK3PXP'' @ replicate 16 1) @ py ''<vault>'') 7)]\<rparr>"

definition bank_newer :: entry where
  "bank_newer = bank_entry\<lparr>e_password := py ''p2'', e_updated_at := py ''2024-01-03T09:00:00''\<rparr>"

definition email_older :: entry where
  "email_older = email_entry\<lparr>e_password := py ''q0'', e_updated_at := py ''2024-01-01T09:00:00''\<rparr>"

definition wifi_entry :: entry where
  "wifi_entry =
     \<lparr>e_id = py ''1700000000003'', e_title = py ''Wifi'', e_username = [],
      e_password = py ''r'', e_url = [], e_notes = [], e_category = Some (py ''Home''),
      e_created_at = py ''2024-01-02T09:00:00'', e_updated_at = py ''2024-01-02T09:00:00''\<rparr>"

definition exported_vault :: vault where
  "exported_vault =
     \<lparr>categories = [py ''Home'', py ''Bank''],
      passwords = [bank_newer, wifi_entry, email_older], last_modified = None,
      version = py ''1.0'', totp_secret = None, username = []\<rparr>"

definition importing :: sys where
  "importing =
     posix\<lparr>json_loads := (\<lambda>t. if t = py ''<export>'' then Some exported_vault else None)\<rparr>"

definition export_world :: world where
  "export_world =
     \<lparr>fs = [(py ''/home/u'', Dir),
            (py ''/home/u/export.db'',
             File (replicate 16 2 @ (py ''pw'' @ replicate 16 2 @ replicate 14 0) @
                   py ''<export>'') 5)],
      cfg = local_config\<rparr>"

definition bank_aware :: entry where
  "bank_aware =
     bank_entry\<lparr>e_password := py ''p3'', e_updated_at := py ''2024-01-03T09:00:00+00:00''\<rparr>"

definition aware_vault :: vault where
  "aware_vault =
     \<lparr>categories = [py ''Home''], passwords = [bank_aware, wifi_entry], last_modified = None,
      version = py ''1.0'', totp_secret = None, username = []\<rparr>"

definition importing_aware :: sys where
  "importing_aware =
     posix\<lparr>json_loads := (\<lambda>t. if t = py ''<export>'' then Some aware_vault else None)\<rparr>"

definition bank_twin :: entry where
  "bank_twin =
     \<lparr>e_id = py ''1700000000001'', e_title = py ''Shop'', e_username = py ''u'',
      e_password = py ''s'', e_url = [], e_notes = [], e_category = Some (py ''Bank''),
      e_created_at = py ''2024-01-01T09:00:00'', e_updated_at = py ''2024-01-01T09:00:00''\<rparr>"

definition twin_session :: database where
  "twin_session = set_passwords session [bank_entry, bank_twin]"

section \<open>Properties\<close>

subsection \<open>What \<open>save\<close> leaves alone\<close>

lemma save_data:
  "save s w db = (ok, db', w') \<Longrightarrow>
     db' = db\<lparr>data := (data db)\<lparr>last_modified := Some (now_iso s)\<rparr>\<rparr>"
  by (auto simp: save_def Let_def split: option.splits prod.splits)

subsection \<open>Unknown identifiers\<close>

lemma index_of_id_None: "index_of_id i ps = None \<longleftrightarrow> i \<notin> set (map e_id ps)"
  by (induction ps) auto

text \<open>
  C10. For an identifier that no record of the vault has, \<open>update_password\<close> and
  \<open>delete_password\<close> return \<open>False\<close> and give back the database object and the world
  (file system and configuration) exactly as they were: \<open>save\<close> is not reached, so
  nothing is written, backed up or pushed.
\<close>

theorem unknown_id_rejected:
  assumes "password_id \<notin> set (map e_id (passwords (data db)))"
  shows "update_password s w db password_id password_data = (False, db, w) \<and>
         delete_password s w db password_id = (False, db, w)"
proof -
  have "index_of_id password_id (passwords (data db)) = None"
    using assms by (simp add: index_of_id_None)
  then show ?thesis by (simp add: update_password_def delete_password_def)
qed

theorem unknown_id_rejected_witness:
  "py ''42'' \<notin> set (map e_id (passwords (data session))) \<and>
   update_password posix home session (py ''42'') email_entry = (False, session, home) \<and>
   delete_password posix home session (py ''42'') = (False, session, home)"
proof -
  have h: "py ''42'' \<notin> set (map e_id (passwords (data session)))"
    by (simp add: session_def bank_entry_def email_entry_def py_def)
  show ?thesis using h unknown_id_rejected [OF h] by simp
qed

subsection \<open>Deleting a category\<close>

text \<open>
  C4. For a category name in the category list, \<open>delete_category\<close> takes its first
  occurrence out of the list, so that the name is gone from a list without duplicates
  (the data model's invariant); every record of that category gets the fallback category
  and is otherwise as it was, and every other record is unchanged.
\<close>

theorem delete_category_moves_records:
  assumes "category \<in> set (categories (data db))"
    and "delete_category s w db category = (ok, db', w')"
  shows "categories (data db') = remove1 category (categories (data db)) \<and>
         (distinct (categories (data db)) \<longrightarrow> category \<notin> set (categories (data db'))) \<and>
         length (passwords (data db')) = length (passwords (data db)) \<and>
         (\<forall>i < length (passwords (data db)).
            passwords (data db') ! i =
              (if e_category (passwords (data db) ! i) = Some category
               then (passwords (data db) ! i)\<lparr>e_category := Some other\<rparr>
               else passwords (data db) ! i))"
proof -
  let ?db2 = "set_passwords (set_categories db (remove1 category (categories (data db))))
                (move_records category other (passwords (data db)))"
  have "save s w ?db2 = (ok, db', w')"
    using assms by (simp add: delete_category_def Let_def set_categories_def set_passwords_def)
  then have "db' = ?db2\<lparr>data := (data ?db2)\<lparr>last_modified := Some (now_iso s)\<rparr>\<rparr>"
    by (rule save_data)
  then have c: "categories (data db') = remove1 category (categories (data db))"
    and p: "passwords (data db') = move_records category other (passwords (data db))"
    by (simp_all add: set_categories_def set_passwords_def)
  show ?thesis using c p by (simp add: move_records_def)
qed

theorem delete_category_moves_records_witness:
  "py ''Bank'' \<in> set (categories (data session)) \<and>
   distinct (categories (data session)) \<and>
   categories (data (fst (snd (delete_category posix home session (py ''Bank''))))) =
     [py ''Email'', other] \<and>
   passwords (data (fst (snd (delete_category posix home session (py ''Bank''))))) ! 0 =
     bank_entry\<lparr>e_category := Some other\<rparr> \<and>
   passwords (data (fst (snd (delete_category posix home session (py ''Bank''))))) ! 1 =
     email_entry"
proof -
  have h: "py ''Bank'' \<in> set (categories (data session))"
    by (simp add: session_def)
  have e: "delete_category posix home session (py ''Bank'') =
             (fst (delete_category posix home session (py ''Bank'')),
              fst (snd (delete_category posix home session (py ''Bank''))),
              snd (snd (delete_category posix home session (py ''Bank''))))"
    by simp
  show ?thesis
    using h delete_category_moves_records [OF h e]
    by (simp add: session_def bank_entry_def email_entry_def py_def other_def)
qed

subsection \<open>Path resolution\<close>

lemma makedirs_Some:
  "makedirs s f p = Some f' \<Longrightarrow>
     map_of f' p = Some Dir \<and> (\<forall>q. q \<noteq> p \<longrightarrow> map_of f' q = map_of f q)"
  by (auto simp: makedirs_def update_conv' split: if_splits option.splits node.splits)

lemma makedirs_succeeds:
  "fault s (Makedirs p) = None \<Longrightarrow> (\<forall>b m. map_of f p \<noteq> Some (File b m)) \<Longrightarrow>
     \<exists>f'. makedirs s f p = Some f'"
  by (auto simp: makedirs_def split: option.splits node.splits)

text \<open>
  C9, as stated, fails. With cloud storage enabled, the kind \<open>network_drive\<close>, a network
  folder that does not exist and no cache folder configured, the effective path is the
  configured database path: no cache folder is used or created.
\<close>

theorem effective_path_counterexample:
  "enabled (cloud nas_config) \<and> storage_type (cloud nas_config) = py ''network_drive'' \<and>
   \<not> exists (fs (home\<lparr>cfg := nas_config\<rparr>)) (network_drive_path (cloud nas_config)) \<and>
   get_effective_database_path posix (home\<lparr>cfg := nas_config\<rparr>) =
     Some (py ''/home/u/vault.db'', home\<lparr>cfg := nas_config\<rparr>) \<and>
   py ''/home/u/vault.db'' \<noteq>
     join posix (local_cache_path (cloud nas_config)) (posix_basename (py ''/home/u/vault.db''))"
  by (simp add: get_effective_database_path_def cloud_folder_def default_database_path_def
      nas_config_def local_config_def home_def exists_def py_def posix_def posix_join_def
      posix_basename_def)

text \<open>
  C9, amended. With cloud storage enabled, a network-drive or remote-folder kind and a
  configured folder that does not exist: when a cache folder is configured and
  \<open>os.makedirs\<close> on it does not fail, the effective path is the cache folder joined
  with the base filename, and the cache folder is a directory afterwards; when no cache
  folder is configured, the effective path is the configured database path, or
  \<open>passwords.db\<close> in the configuration directory when none is configured.
\<close>

theorem effective_path_fallback:
  assumes "enabled (cloud (cfg w))"
    and "storage_type (cloud (cfg w)) = py ''network_drive'' \<and>
           \<not> exists (fs w) (network_drive_path (cloud (cfg w))) \<or>
         storage_type (cloud (cfg w)) \<in> {py ''baidu_netdisk'', py ''onedrive'', py ''dropbox''} \<and>
           \<not> exists (fs w) (remote_path (cloud (cfg w)))"
  shows "(local_cache_path (cloud (cfg w)) \<noteq> [] \<and>
          fault s (Makedirs (local_cache_path (cloud (cfg w)))) = None \<and>
          (\<forall>b m. map_of (fs w) (local_cache_path (cloud (cfg w))) \<noteq> Some (File b m)) \<longrightarrow>
          (\<exists>w'. get_effective_database_path s w =
                  Some (join s (local_cache_path (cloud (cfg w))) (db_filename s (cfg w)), w') \<and>
                map_of (fs w') (local_cache_path (cloud (cfg w))) = Some Dir \<and>
                cfg w' = cfg w)) \<and>
         (local_cache_path (cloud (cfg w)) = [] \<longrightarrow>
          get_effective_database_path s w =
            Some (if database_path (cfg w) = []
                  then join s (config_dir (cfg w)) (py ''passwords.db'')
                  else database_path (cfg w), w))"
proof -
  have nd: "py ''network_drive'' \<notin> {py ''baidu_netdisk'', py ''onedrive'', py ''dropbox''}"
    by (simp add: py_def)
  have cf: "cloud_folder (fs w) (cloud (cfg w)) = None"
    using assms(2) nd by (auto simp: cloud_folder_def)
  show ?thesis
  proof (intro conjI impI)
    assume a: "local_cache_path (cloud (cfg w)) \<noteq> [] \<and>
               fault s (Makedirs (local_cache_path (cloud (cfg w)))) = None \<and>
               (\<forall>b m. map_of (fs w) (local_cache_path (cloud (cfg w))) \<noteq> Some (File b m))"
    then obtain f' where m: "makedirs s (fs w) (local_cache_path (cloud (cfg w))) = Some f'"
      using makedirs_succeeds by blast
    have "get_effective_database_path s w =
            Some (join s (local_cache_path (cloud (cfg w))) (db_filename s (cfg w)),
                  w\<lparr>fs := f'\<rparr>)"
      using assms(1) cf a m by (simp add: get_effective_database_path_def Let_def)
    moreover have "map_of (fs (w\<lparr>fs := f'\<rparr>)) (local_cache_path (cloud (cfg w))) = Some Dir"
      using makedirs_Some [OF m] by simp
    ultimately show "\<exists>w'. get_effective_database_path s w =
                  Some (join s (local_cache_path (cloud (cfg w))) (db_filename s (cfg w)), w') \<and>
                map_of (fs w') (local_cache_path (cloud (cfg w))) = Some Dir \<and>
                cfg w' = cfg w"
      by (intro exI [of _ "w\<lparr>fs := f'\<rparr>"]) simp
  next
    assume "local_cache_path (cloud (cfg w)) = []"
    then show "get_effective_database_path s w =
            Some (if database_path (cfg w) = []
                  then join s (config_dir (cfg w)) (py ''passwords.db'')
                  else database_path (cfg w), w)"
      using assms(1) cf
      by (simp add: get_effective_database_path_def Let_def default_database_path_def
          db_filename_def)
  qed
qed

theorem effective_path_fallback_witness:
  "enabled (cloud nas_cached_config) \<and>
   storage_type (cloud nas_cached_config) = py ''network_drive'' \<and>
   \<not> exists (fs (home\<lparr>cfg := nas_cached_config\<rparr>)) (network_drive_path (cloud nas_cached_config)) \<and>
   local_cache_path (cloud nas_cached_config) \<noteq> [] \<and>
   (\<exists>w'. get_effective_database_path posix (home\<lparr>cfg := nas_cached_config\<rparr>) =
            Some (py ''/home/u/cache/vault.db'', w') \<and>
          map_of (fs w') (py ''/home/u/cache'') = Some Dir) \<and>
   get_effective_database_path posix (home\<lparr>cfg := nas_config\<rparr>) =
     Some (py ''/home/u/vault.db'', home\<lparr>cfg := nas_config\<rparr>)"
proof -
  have e: "enabled (cloud (cfg (home\<lparr>cfg := nas_cached_config\<rparr>)))"
    by (simp add: nas_cached_config_def nas_config_def)
  have n: "storage_type (cloud (cfg (home\<lparr>cfg := nas_cached_config\<rparr>))) = py ''network_drive'' \<and>
           \<not> exists (fs (home\<lparr>cfg := nas_cached_config\<rparr>))
               (network_drive_path (cloud (cfg (home\<lparr>cfg := nas_cached_config\<rparr>)))) \<or>
         storage_type (cloud (cfg (home\<lparr>cfg := nas_cached_config\<rparr>)))
           \<in> {py ''baidu_netdisk'', py ''onedrive'', py ''dropbox''} \<and>
           \<not> exists (fs (home\<lparr>cfg := nas_cached_config\<rparr>))
               (remote_path (cloud (cfg (home\<lparr>cfg := nas_cached_config\<rparr>))))"
    by (simp add: nas_cached_config_def nas_config_def home_def exists_def py_def)
  have e2: "enabled (cloud (cfg (home\<lparr>cfg := nas_config\<rparr>)))"
    by (simp add: nas_config_def)
  have n2: "storage_type (cloud (cfg (home\<lparr>cfg := nas_config\<rparr>))) = py ''network_drive'' \<and>
           \<not> exists (fs (home\<lparr>cfg := nas_config\<rparr>))
               (network_drive_path (cloud (cfg (home\<lparr>cfg := nas_config\<rparr>)))) \<or>
         storage_type (cloud (cfg (home\<lparr>cfg := nas_config\<rparr>)))
           \<in> {py ''baidu_netdisk'', py ''onedrive'', py ''dropbox''} \<and>
           \<not> exists (fs (home\<lparr>cfg := nas_config\<rparr>))
               (remote_path (cloud (cfg (home\<lparr>cfg := nas_config\<rparr>))))"
    by (simp add: nas_config_def home_def exists_def py_def)
  have a: "local_cache_path (cloud (cfg (home\<lparr>cfg := nas_cached_config\<rparr>))) \<noteq> [] \<and>
        fault posix (Makedirs (local_cache_path (cloud (cfg (home\<lparr>cfg := nas_cached_config\<rparr>))))) = None \<and>
        (\<forall>b m. map_of (fs (home\<lparr>cfg := nas_cached_config\<rparr>))
                  (local_cache_path (cloud (cfg (home\<lparr>cfg := nas_cached_config\<rparr>)))) \<noteq> Some (File b m))"
    by (simp add: nas_cached_config_def nas_config_def home_def py_def posix_def)
  have c: "local_cache_path (cloud (cfg (home\<lparr>cfg := nas_cached_config\<rparr>))) = py ''/home/u/cache''"
    by (simp add: nas_cached_config_def)
  have j: "join posix (py ''/home/u/cache'') (db_filename posix (cfg (home\<lparr>cfg := nas_cached_config\<rparr>))) =
             py ''/home/u/cache/vault.db''"
    by (simp add: nas_cached_config_def nas_config_def local_config_def db_filename_def
        py_def posix_def posix_join_def posix_basename_def)
  have b: "local_cache_path (cloud (cfg (home\<lparr>cfg := nas_config\<rparr>))) = []"
    by (simp add: nas_config_def local_config_def)
  have d: "database_path (cfg (home\<lparr>cfg := nas_config\<rparr>)) = py ''/home/u/vault.db''"
    by (simp add: nas_config_def local_config_def)
  have t1: "\<exists>w'. get_effective_database_path posix (home\<lparr>cfg := nas_cached_config\<rparr>) =
            Some (py ''/home/u/cache/vault.db'', w') \<and>
          map_of (fs w') (py ''/home/u/cache'') = Some Dir"
    using effective_path_fallback [OF e n, of posix, THEN conjunct1, rule_format, OF a]
    unfolding c j by blast
  have t2: "get_effective_database_path posix (home\<lparr>cfg := nas_config\<rparr>) =
     Some (py ''/home/u/vault.db'', home\<lparr>cfg := nas_config\<rparr>)"
    using effective_path_fallback [OF e2 n2, of posix, THEN conjunct2, rule_format, OF b]
    unfolding d by (simp add: py_def)
  have p: "enabled (cloud nas_cached_config) \<and>
   storage_type (cloud nas_cached_config) = py ''network_drive'' \<and>
   \<not> exists (fs (home\<lparr>cfg := nas_cached_config\<rparr>)) (network_drive_path (cloud nas_cached_config)) \<and>
   local_cache_path (cloud nas_cached_config) \<noteq> []"
    by (simp add: nas_cached_config_def nas_config_def home_def exists_def py_def)
  show ?thesis using p t1 t2 by blast
qed

subsection \<open>Push\<close>

text \<open>
  C6. The remote target is not safe from a failure between the staged copy and the
  completed rename. Here the remote folder holds an older container, the copy to
  \<open>vault.db.tmp\<close> succeeds, \<open>os.remove\<close> of the target succeeds and \<open>os.rename\<close>
  raises: \<open>sync_to_remote\<close> returns \<open>False\<close> and the target that was there is gone.
\<close>

theorem push_rename_failure_loses_target:
  "map_of (fs nas_world) (py ''/mnt/nas/vault.db'') = Some (File (replicate 16 1 @ [8, 8]) 3) \<and>
   fst (sync_to_remote rename_fails nas_world (py ''/home/u/vault.db'')) = False \<and>
   map_of (fs (snd (sync_to_remote rename_fails nas_world (py ''/home/u/vault.db''))))
     (py ''/mnt/nas/vault.db'') = None"
  by (simp add: sync_to_remote_def push_file_def get_remote_path_def
      check_remote_accessibility_def db_filename_def makedirs_def copy2_def remove_def
      rename_def exists_def nas_world_def nas_config_def local_config_def rename_fails_def
      posix_def posix_join_def posix_basename_def posix_dirname_def py_def Let_def
      AList.delete_eq)


subsection \<open>Save, backup and push\<close>

text \<open>
  C8. When the session has its key and salt, the vault encrypts, and the parent
  directory and the container are written, \<open>save\<close> returns \<open>True\<close>: whatever the
  backup did before the write and whatever \<open>sync_to_remote\<close> returns after it. No
  hypothesis is made on either; the instance below has both fail.
\<close>

theorem save_succeeds_without_backup_or_push:
  assumes "key db = Some k"
    and "encrypt s (json_dumps s ((data db)\<lparr>last_modified := Some (now_iso s)\<rparr>)) k =
           Some encrypted_data"
    and "db_path db = Some path"
    and "salt db = Some sl"
    and "makedirs s (fs (if exists (fs w) path then create_backup s w path else w))
           (dirname s (abspath s path)) = Some f2"
    and "write_file s f2 path (sl @ encrypted_data) = Some f3"
  shows "\<exists>w'. save s w db =
           (True, db\<lparr>data := (data db)\<lparr>last_modified := Some (now_iso s)\<rparr>\<rparr>, w')"
  using assms by (simp add: save_def store_def Let_def split: prod.splits)

theorem save_succeeds_without_backup_or_push_witness:
  "fst (save copies_fail nas_world session) = True \<and>
   map_of (fs (create_backup copies_fail nas_world (py ''/home/u/vault.db'')))
     (py ''/home/u/backups/vault_20240501_100000.bak'') = None \<and>
   fst (sync_to_remote copies_fail nas_world (py ''/home/u/vault.db'')) = False"
proof -
  let ?enc = "replicate 32 3 @ py ''<vault>''"
  have k: "key session = Some (replicate 32 3)" by (simp add: session_def)
  have e: "encrypt copies_fail
             (json_dumps copies_fail ((data session)\<lparr>last_modified := Some (now_iso copies_fail)\<rparr>))
             (replicate 32 3) = Some ?enc"
    by (simp add: encrypt_def copies_fail_def posix_def toy_encrypt_def py_def utf8_char_def)
  have p: "db_path session = Some (py ''/home/u/vault.db'')" by (simp add: session_def)
  have sl: "salt session = Some (replicate 16 1)" by (simp add: session_def)
  have b: "create_backup copies_fail nas_world (py ''/home/u/vault.db'') =
             nas_world\<lparr>fs := fs nas_world @ [(py ''/home/u/backups'', Dir)]\<rparr>"
    by (simp add: create_backup_def makedirs_def copy2_def nas_world_def nas_config_def
        local_config_def copies_fail_def posix_def posix_join_def posix_dirname_def py_def
        Let_def)
  have m: "makedirs copies_fail
             (fs (if exists (fs nas_world) (py ''/home/u/vault.db'')
                  then create_backup copies_fail nas_world (py ''/home/u/vault.db'')
                  else nas_world))
             (dirname copies_fail (abspath copies_fail (py ''/home/u/vault.db''))) =
           Some (fs nas_world @ [(py ''/home/u/backups'', Dir)])"
    unfolding b
    by (simp add: makedirs_def exists_def nas_world_def copies_fail_def posix_def
        posix_dirname_def py_def)
  have wr: "write_file copies_fail (fs nas_world @ [(py ''/home/u/backups'', Dir)])
              (py ''/home/u/vault.db'') (replicate 16 1 @ ?enc) =
            Some (AList.update (py ''/home/u/vault.db'')
                    (File (replicate 16 1 @ ?enc) (now_mtime copies_fail))
                    (fs nas_world @ [(py ''/home/u/backups'', Dir)]))"
    by (simp add: write_file_def nas_world_def copies_fail_def posix_def py_def)
  have t: "fst (save copies_fail nas_world session) = True"
    using save_succeeds_without_backup_or_push [OF k e p sl m wr] by auto
  have n: "map_of (fs (create_backup copies_fail nas_world (py ''/home/u/vault.db'')))
             (py ''/home/u/backups/vault_20240501_100000.bak'') = None"
    unfolding b by (simp add: nas_world_def py_def)
  have q: "fst (sync_to_remote copies_fail nas_world (py ''/home/u/vault.db'')) = False"
    by (simp add: sync_to_remote_def push_file_def get_remote_path_def
      check_remote_accessibility_def db_filename_def makedirs_def copy2_def
      exists_def nas_world_def nas_config_def local_config_def copies_fail_def
      posix_def posix_join_def posix_basename_def posix_dirname_def py_def Let_def)
  show ?thesis using t n q by simp
qed

subsection \<open>Opening a container\<close>

lemma read_file_exists: "read_file s f p = Inr b \<Longrightarrow> exists f p"
  by (auto simp: read_file_def exists_def split: option.splits node.splits)

lemma open_file_short:
  assumes "read_file s f p = Inr encrypted_data" and "length encrypted_data < 16"
  shows "open_file s f db p master_password = (False, db\<lparr>last_error := Some DATA_CORRUPTED\<rparr>)"
  using assms read_file_exists [OF assms(1)] by (simp add: open_file_def failed_def)

lemma open_file_salt_only:
  assumes "read_file s f p = Inr encrypted_data" and "length encrypted_data = 16"
    and "\<forall>k. fernet_decrypt s k [] = None"
  shows "fst (open_file s f db p master_password) = False"
  using assms read_file_exists [OF assms(1)]
  by (simp add: open_file_def failed_def decrypt_def Let_def split: option.splits prod.splits)

text \<open>
  C7. Let \<open>open\<close> settle on a file that can be read. If the file has fewer than 16 bytes,
  \<open>open\<close> returns \<open>False\<close> with \<open>DATA_CORRUPTED\<close>. If it has fewer than 17 bytes,
  \<open>open\<close> returns \<open>False\<close>: a file of exactly 16 bytes is all salt, and the cipher
  accepts no empty token, which is the one assumption on the library here.
\<close>

theorem short_container_rejected:
  assumes "choose_path s w path = Some (Some p, w2)"
    and "read_file s (fs w2) p = Inr encrypted_data"
  shows "(length encrypted_data < 16 \<longrightarrow>
            open_db s w db path master_password =
              Some (False, db\<lparr>last_error := Some DATA_CORRUPTED, db_path := Some p\<rparr>, w2)) \<and>
         (length encrypted_data < 17 \<and> (\<forall>k. fernet_decrypt s k [] = None) \<longrightarrow>
            (\<exists>db'. open_db s w db path master_password = Some (False, db', w2)))"
proof (intro conjI impI)
  assume "length encrypted_data < 16"
  then show "open_db s w db path master_password =
              Some (False, db\<lparr>last_error := Some DATA_CORRUPTED, db_path := Some p\<rparr>, w2)"
    using assms by (simp add: open_db_def Let_def open_file_short)
next
  assume a: "length encrypted_data < 17 \<and> (\<forall>k. fernet_decrypt s k [] = None)"
  let ?db0 = "db\<lparr>last_error := None, db_path := Some p\<rparr>"
  have "fst (open_file s (fs w2) ?db0 p master_password) = False"
  proof (cases "length encrypted_data < 16")
    case True
    then show ?thesis using assms(2) by (simp add: open_file_short)
  next
    case False
    then have "length encrypted_data = 16" using a by simp
    then show ?thesis using assms(2) a by (simp add: open_file_salt_only)
  qed
  then show "\<exists>db'. open_db s w db path master_password = Some (False, db', w2)"
    using assms(1) by (auto simp: open_db_def Let_def split: prod.splits)
qed

theorem short_container_rejected_witness:
  "open_db posix stub_world init (py ''/home/u/short.db'') (py ''JBSWY3DPEHPK3PXP'') =
     Some (False, init\<lparr>last_error := Some DATA_CORRUPTED,
                        db_path := Some (py ''/home/u/short.db'')\<rparr>, stub_world) \<and>
   (\<exists>db'. open_db posix stub_world init (py ''/home/u/vault.db'') (py ''JBSWY3DPEHPK3PXP'') =
     Some (False, db', stub_world))"
proof -
  have c1: "choose_path posix stub_world (py ''/home/u/short.db'') =
              Some (Some (py ''/home/u/short.db''), stub_world)"
    by (simp add: choose_path_def stub_world_def local_config_def)
  have r1: "read_file posix (fs stub_world) (py ''/home/u/short.db'') = Inr [1, 2, 3, 4, 5]"
    by (simp add: read_file_def stub_world_def posix_def py_def)
  have c2: "choose_path posix stub_world (py ''/home/u/vault.db'') =
              Some (Some (py ''/home/u/vault.db''), stub_world)"
    by (simp add: choose_path_def stub_world_def local_config_def)
  have r2: "read_file posix (fs stub_world) (py ''/home/u/vault.db'') = Inr (replicate 16 1)"
    by (simp add: read_file_def stub_world_def posix_def py_def)
  have t: "\<forall>k. fernet_decrypt posix k [] = None"
    by (auto simp: posix_def toy_decrypt_def)
  show ?thesis
    using short_container_rejected [OF c1 r1, of init "py ''JBSWY3DPEHPK3PXP''"]
      short_container_rejected [OF c2 r2, of init "py ''JBSWY3DPEHPK3PXP''"] t
    by simp
qed

text \<open>
  C1, amended. When the file that \<open>open\<close> settles on decrypts and parses under the
  supplied secret, and the parsed vault stores a non-empty second-factor secret that
  differs from the supplied one after trimming, \<open>open\<close> returns \<open>False\<close> with
  \<open>INVALID_KEY\<close>. The object is not put back: its \<open>data\<close> is the parsed vault of the
  file, and its key, salt and path are those of this attempt.
\<close>

theorem mismatched_secret_keeps_vault:
  assumes "choose_path s w path = Some (Some p, w2)"
    and "read_file s (fs w2) p = Inr encrypted_data"
    and "16 \<le> length encrypted_data"
    and "generate_key s master_password (Some (take 16 encrypted_data)) = Some (k, sl)"
    and "decrypt s (drop 16 encrypted_data) k = Some decrypted_data"
    and "decrypted_data \<noteq> []"
    and "json_loads s decrypted_data = Some d"
    and "totp_secret d = Some stored"
    and "stored \<noteq> []"
    and "strip stored \<noteq> strip master_password"
  shows "open_db s w db path master_password =
           Some (False,
                 db\<lparr>last_error := Some INVALID_KEY, db_path := Some p, key := Some k,
                    salt := Some sl, data := d, shared_categories := False\<rparr>,
                 w2)"
  using assms read_file_exists [OF assms(2)]
  by (auto simp: open_db_def open_file_def failed_def Let_def)

text \<open>
  C1, as stated, fails. The container was written under the secret \<open>OLDSECRET\<close> and
  stores another second-factor secret. Opening it with \<open>OLDSECRET\<close> on a fresh object
  fails with \<open>INVALID_KEY\<close>, and the object then holds the categories and the secret of
  the file, where a fresh object has no category.
\<close>

theorem mismatched_secret_counterexample:
  "open_db posix rekeyed_world init (py ''/home/u/vault.db'') (py ''OLDSECRET'') =
     Some (False,
           init\<lparr>last_error := Some INVALID_KEY, db_path := Some (py ''/home/u/vault.db''),
                key := Some (py ''OLDSECRET'' @ replicate 16 1 @ replicate 7 0),
                salt := Some (replicate 16 1), data := toy_vault\<rparr>,
           rekeyed_world) \<and>
   totp_secret toy_vault = Some (py ''JBSWY3DPEHPK3PXP'') \<and>
   categories toy_vault = [py ''Bank'', py ''Email''] \<and>
   categories (data init) = []"
  by (simp add: open_db_def choose_path_def open_file_def read_file_def generate_key_def
      decrypt_def failed_def exists_def strip_def isspace_def rekeyed_world_def
      local_config_def posix_def toy_decrypt_def toy_vault_def toy_vault_json_def init_def
      py_def utf8_char_def continuation_def Let_def)


theorem mismatched_secret_keeps_vault_witness:
  "strip (py ''JBSWY3DPEHPK3PXP'') \<noteq> strip (py '' OLDSECRET '') \<and>
   open_db posix rekeyed_world session (py ''/home/u/vault.db'') (py ''OLDSECRET'') =
     Some (False,
           session\<lparr>last_error := Some INVALID_KEY, db_path := Some (py ''/home/u/vault.db''),
                   key := Some (py ''OLDSECRET'' @ replicate 16 1 @ replicate 7 0),
                   salt := Some (replicate 16 1), data := toy_vault,
                   shared_categories := False\<rparr>,
           rekeyed_world)"
proof -
  let ?enc = "replicate 16 1 @ (py ''OLDSECRET'' @ replicate 16 1 @ replicate 7 0) @
                toy_vault_json"
  have c: "choose_path posix rekeyed_world (py ''/home/u/vault.db'') =
             Some (Some (py ''/home/u/vault.db''), rekeyed_world)"
    by (simp add: choose_path_def rekeyed_world_def local_config_def)
  have r: "read_file posix (fs rekeyed_world) (py ''/home/u/vault.db'') = Inr ?enc"
    by (simp add: read_file_def rekeyed_world_def posix_def py_def)
  have l: "16 \<le> length ?enc" by simp
  have g: "generate_key posix (py ''OLDSECRET'') (Some (take 16 ?enc)) =
             Some (py ''OLDSECRET'' @ replicate 16 1 @ replicate 7 0, replicate 16 1)"
    by (simp add: generate_key_def posix_def py_def utf8_char_def Let_def)
  have d: "decrypt posix (drop 16 ?enc) (py ''OLDSECRET'' @ replicate 16 1 @ replicate 7 0) =
             Some toy_vault_json"
    by (simp add: decrypt_def posix_def toy_decrypt_def toy_vault_json_def py_def
        continuation_def)
  have n: "toy_vault_json \<noteq> []" by (simp add: toy_vault_json_def py_def)
  have j: "json_loads posix toy_vault_json = Some toy_vault" by (simp add: posix_def)
  have t: "totp_secret toy_vault = Some (py ''JBSWY3DPEHPK3PXP'')"
    by (simp add: toy_vault_def)
  have e: "py ''JBSWY3DPEHPK3PXP'' \<noteq> []" by (simp add: py_def)
  have m: "strip (py ''JBSWY3DPEHPK3PXP'') \<noteq> strip (py ''OLDSECRET'')"
    by (simp add: strip_def isspace_def py_def)
  have m': "strip (py ''JBSWY3DPEHPK3PXP'') \<noteq> strip (py '' OLDSECRET '')"
    by (simp add: strip_def isspace_def py_def)
  show ?thesis
    using m' mismatched_secret_keeps_vault [OF c r l g d n j t e m, of session] by simp
qed

subsection \<open>The fallback category\<close>

lemma save_db: "fst (snd (save s w db)) = db\<lparr>data := (data db)\<lparr>last_modified := Some (now_iso s)\<rparr>\<rparr>"
  using save_data [of s w db "fst (save s w db)" "fst (snd (save s w db))" "snd (snd (save s w db))"]
  by simp

lemma save_categories [simp]: "categories (data (fst (snd (save s w db)))) = categories (data db)"
  by (simp add: save_db)

lemma save_passwords [simp]: "passwords (data (fst (snd (save s w db)))) = passwords (data db)"
  by (simp add: save_db)

lemma set_categories_categories [simp]: "categories (data (set_categories db cs)) = cs"
  by (simp add: set_categories_def)

lemma set_passwords_categories [simp]:
  "categories (data (set_passwords db ps)) = categories (data db)"
  by (simp add: set_passwords_def)

lemma replace_first_keeps: "x \<noteq> old_name \<Longrightarrow> x \<in> set cs \<Longrightarrow> x \<in> set (replace_first old_name new_name cs)"
  by (induction cs) auto

lemma merge_categories_set: "set (merge_categories cs imported) = set cs \<union> set imported"
  by (induction imported arbitrary: cs) auto

lemma merge_categories_distinct: "distinct cs \<Longrightarrow> distinct (merge_categories cs imported)"
  by (induction imported arbitrary: cs) auto

lemma merge_data_categories:
  "categories (data (snd (merge_data s db v))) =
     merge_categories (categories (data db)) (categories v)"
  by (simp add: merge_data_def Let_def split: prod.splits)

lemma import_data_categories:
  "x \<in> set (categories (data db)) \<Longrightarrow>
     x \<in> set (categories (data (fst (snd (import_data s w db p k)))))"
proof -
  assume x: "x \<in> set (categories (data db))"
  have m: "\<And>v. x \<in> set (categories (data (snd (merge_data s db v))))"
    using x by (simp add: merge_data_categories merge_categories_set)
  show ?thesis
    using x m
    by (auto simp: import_data_def Let_def split: sum.splits option.splits prod.splits)
       (metis snd_conv)+
qed

lemma apply_operation_keeps:
  assumes "other \<in> set (categories (data db))"
    and "c \<noteq> DeleteCategory other" and "\<forall>n. c \<noteq> RenameCategory other n"
  shows "other \<in> set (categories (data (fst (apply_operation s c (db, w)))))"
proof (cases c)
  case (AddPassword e)
  then show ?thesis using assms(1) by (simp add: add_password_def Let_def)
next
  case (UpdatePassword i e)
  then show ?thesis using assms(1)
    by (simp add: update_password_def Let_def split: option.splits)
next
  case (DeletePassword i)
  then show ?thesis using assms(1)
    by (simp add: delete_password_def split: option.splits)
next
  case (UpdateTotpSecret t n)
  then show ?thesis using assms(1) by (simp add: update_totp_secret_def)
next
  case (AddCategory x)
  then show ?thesis using assms(1) by (simp add: add_category_def)
next
  case (DeleteCategory x)
  then have "x \<noteq> other" using assms(2) by simp
  then show ?thesis using assms(1) DeleteCategory
    by (simp add: delete_category_def Let_def)
next
  case (RenameCategory x n)
  then have "x \<noteq> other" using assms(3) by simp
  then show ?thesis using assms(1) RenameCategory
    by (simp add: rename_category_def Let_def replace_first_keeps)
next
  case (ImportData p k)
  then show ?thesis using assms(1) by (simp add: import_data_categories)
qed

lemma run_keeps:
  assumes "other \<in> set (categories (data db))"
    and "\<forall>(s, c) \<in> set ops. c \<noteq> DeleteCategory other \<and> (\<forall>n. c \<noteq> RenameCategory other n)"
  shows "other \<in> set (categories (data (fst (run ops (db, w)))))"
  using assms
proof (induction ops arbitrary: db w)
  case Nil
  then show ?case by simp
next
  case (Cons a ops)
  obtain s c where a: "a = (s, c)" by (cases a)
  obtain db1 w1 where st: "apply_operation s c (db, w) = (db1, w1)"
    by (cases "apply_operation s c (db, w)")
  have "other \<in> set (categories (data db1))"
    using apply_operation_keeps [of db c s w] Cons.prems a st by auto
  then show ?case using Cons.IH [of db1 w1] Cons.prems(2) a st by simp
qed

lemma create_categories:
  "create s w db path master_password secret name = Some (ok, db', w') \<Longrightarrow>
     categories (data db') = default_categories db"
  by (auto simp: create_def publish_def Let_def save_db
      split: option.splits prod.splits if_splits dest!: save_data)

text \<open>
  C3, amended. On an object whose default categories contain the fallback category (a
  fresh object does), a successful \<open>create\<close> followed by any sequence of
  \<open>add_password\<close>, \<open>update_password\<close>, \<open>delete_password\<close>, \<open>update_totp_secret\<close>,
  \<open>add_category\<close>, \<open>import_data\<close>, and \<open>delete_category\<close> or \<open>rename_category\<close>
  of categories other than the fallback one, leaves the fallback category in the
  category list, whether the saves succeed or not.
\<close>

theorem fallback_category_kept:
  assumes "other \<in> set (default_categories db0)"
    and "create s w db0 path master_password secret name = Some (True, db, w1)"
    and "\<forall>(s', c) \<in> set ops. c \<noteq> DeleteCategory other \<and> (\<forall>n. c \<noteq> RenameCategory other n)"
  shows "other \<in> set (categories (data (fst (run ops (db, w1)))))"
proof -
  have "other \<in> set (categories (data db))"
    using assms(1) create_categories [OF assms(2)] by simp
  then show ?thesis using assms(3) by (rule run_keeps)
qed


lemma create_home:
  "create posix home init (py ''/home/u/vault.db'') (py ''JBSWY3DPEHPK3PXP'')
     (Some (py ''JBSWY3DPEHPK3PXP'')) [] = Some (True, created, home_created)"
  by (simp add: create_def save_def store_def generate_key_def encrypt_def makedirs_def
      write_file_def exists_def set_database_path_def home_def local_config_def posix_def
      posix_dirname_def toy_encrypt_def init_def created_def home_created_def py_def
      utf8_char_def Let_def)

text \<open>
  C3, as stated, fails: \<open>delete_category\<close> has no special case for the fallback
  category. After a successful \<open>create\<close>, deleting it succeeds and takes it out of the
  category list.
\<close>

theorem fallback_category_counterexample:
  "create posix home init (py ''/home/u/vault.db'') (py ''JBSWY3DPEHPK3PXP'')
     (Some (py ''JBSWY3DPEHPK3PXP'')) [] = Some (True, created, home_created) \<and>
   other \<in> set (categories (data created)) \<and>
   fst (delete_category posix home_created created other) = True \<and>
   other \<notin> set (categories (data (fst (run [(posix, DeleteCategory other)]
                                            (created, home_created)))))"
proof -
  have "fst (delete_category posix home_created created other) = True"
    by (simp add: delete_category_def save_def store_def create_backup_def cleanup_backups_def
      listdir_def encrypt_def set_categories_def set_passwords_def move_records_def
      makedirs_def write_file_def copy2_def exists_def home_created_def home_def
      local_config_def posix_def posix_dirname_def posix_join_def posix_basename_def
      posix_splitext_root_def endswith_def getmtime_def
      toy_encrypt_def created_def init_def default_categories0_def other_def py_def
      utf8_char_def Let_def)
  moreover have "other \<notin> set (categories (data (fst (run [(posix, DeleteCategory other)]
                                            (created, home_created)))))"
    by (simp add: delete_category_def set_categories_def set_passwords_def Let_def
        created_def init_def default_categories0_def other_def)
  moreover have "other \<in> set (categories (data created))"
    by (simp add: created_def default_categories0_def)
  ultimately show ?thesis using create_home by simp
qed

theorem fallback_category_kept_witness:
  "other \<in> set (default_categories init) \<and>
   create posix home init (py ''/home/u/vault.db'') (py ''JBSWY3DPEHPK3PXP'')
     (Some (py ''JBSWY3DPEHPK3PXP'')) [] = Some (True, created, home_created) \<and>
   other \<in> set (categories (data (fst (run
      [(posix, AddCategory (py ''Work'')), (posix, RenameCategory (py ''Work'') (py ''Job'')),
       (posix, DeleteCategory (py ''Job'')), (posix, AddPassword bank_entry)]
      (created, home_created)))))"
proof -
  have d: "other \<in> set (default_categories init)"
    by (simp add: init_def default_categories0_def)
  have o: "\<forall>(s', c) \<in> set [(posix, AddCategory (py ''Work'')),
               (posix, RenameCategory (py ''Work'') (py ''Job'')),
               (posix, DeleteCategory (py ''Job'')), (posix, AddPassword bank_entry)].
             c \<noteq> DeleteCategory other \<and> (\<forall>n. c \<noteq> RenameCategory other n)"
    by (simp add: py_def other_def)
  show ?thesis using d create_home fallback_category_kept [OF d create_home o] by simp
qed

subsection \<open>Import\<close>

lemma index_of_id_Some:
  "i \<in> set (map e_id ps) \<Longrightarrow>
     \<exists>k. index_of_id i ps = Some k \<and> k < length ps \<and> e_id (ps ! k) = i"
  by (induction ps) auto

lemma index_of_id_append:
  "i \<in> set (map e_id A) \<Longrightarrow> index_of_id i (A @ B) = index_of_id i A"
  by (induction A) auto

lemma find_id_None: "i \<notin> set (map e_id ps) \<Longrightarrow> find (\<lambda>p. e_id p = i) ps = None"
  by (induction ps) auto

lemma reconcile_step:
  assumes "distinct (map e_id A)" and "k < length A" and "e_id (A ! k) = e_id pwd"
    and "e_id pwd \<notin> set (map e_id rest)"
  shows "map (reconcile s (pwd # rest)) A =
         map (reconcile s rest) (A[k := (if later s pwd (A ! k) then pwd else A ! k)])"
proof (rule nth_equalityI)
  show "length (map (reconcile s (pwd # rest)) A) =
        length (map (reconcile s rest) (A[k := (if later s pwd (A ! k) then pwd else A ! k)]))"
    by simp
next
  fix j assume "j < length (map (reconcile s (pwd # rest)) A)"
  then have j: "j < length A" by simp
  show "map (reconcile s (pwd # rest)) A ! j =
        map (reconcile s rest) (A[k := (if later s pwd (A ! k) then pwd else A ! k)]) ! j"
  proof (cases "j = k")
    case True
    have n: "find (\<lambda>p. e_id p = e_id pwd) rest = None"
      using assms(4) by (rule find_id_None)
    show ?thesis using True j assms(2,3) n by (simp add: reconcile_def)
  next
    case False
    have "e_id (A ! j) \<noteq> e_id (A ! k)"
      using assms(1,2) j False by (simp add: distinct_conv_nth)
    then show ?thesis using False j assms(2,3) by (simp add: reconcile_def)
  qed
qed

lemma reconcile_skip:
  "e_id pwd \<notin> set (map e_id A) \<Longrightarrow>
     map (reconcile s (pwd # rest)) A = map (reconcile s rest) A"
  by (induction A) (auto simp: reconcile_def)

lemma merge_passwords_eq:
  assumes "map e_id A = ids" and "distinct ids"
    and "distinct (map e_id rest)" and "comparable s A rest"
  shows "merge_passwords s ids (A @ B) rest =
           (True, map (reconcile s rest) A @ B @ filter (\<lambda>p. e_id p \<notin> set ids) rest)"
  using assms
proof (induction rest arbitrary: A B)
  case Nil
  have "map (reconcile s []) A = A" by (induction A) (simp_all add: reconcile_def)
  then show ?case by simp
next
  case (Cons pwd rest)
  have dr: "distinct (map e_id rest)" and nr: "e_id pwd \<notin> set (map e_id rest)"
    using Cons.prems(3) by simp_all
  have cr: "comparable s A rest" using Cons.prems(4) by (simp add: comparable_def)
  show ?case
  proof (cases "e_id pwd \<in> set ids")
    case False
    then have na: "e_id pwd \<notin> set (map e_id A)" using Cons.prems(1) by simp
    have "merge_passwords s ids (A @ (B @ [pwd])) rest =
            (True, map (reconcile s rest) A @ (B @ [pwd]) @ filter (\<lambda>p. e_id p \<notin> set ids) rest)"
      using Cons.IH [OF Cons.prems(1,2) dr cr] .
    then show ?thesis using False reconcile_skip [OF na] by simp
  next
    case True
    then have ia: "e_id pwd \<in> set (map e_id A)" using Cons.prems(1) by simp
    then obtain k where k: "index_of_id (e_id pwd) A = Some k" "k < length A"
        "e_id (A ! k) = e_id pwd"
      using index_of_id_Some by blast
    have ix: "index_of_id (e_id pwd) (A @ B) = Some k"
      using ia k(1) by (simp add: index_of_id_append)
    have ak: "A ! k \<in> set A" using k(2) by simp
    have "\<exists>a b. fromisoformat s (e_updated_at pwd) = Some a \<and>
                fromisoformat s (e_updated_at (A ! k)) = Some b \<and> datetime_gt a b \<noteq> None"
      using Cons.prems(4) ak k(3) by (simp add: comparable_def)
    then obtain a b newer where a: "fromisoformat s (e_updated_at pwd) = Some a"
      and b: "fromisoformat s (e_updated_at (A ! k)) = Some b"
      and g: "datetime_gt a b = Some newer"
      by auto
    let ?A = "A[k := (if later s pwd (A ! k) then pwd else A ! k)]"
    have lt: "later s pwd (A ! k) \<longleftrightarrow> newer" using a b g by (simp add: later_def)
    have ids': "map e_id ?A = ids"
      using Cons.prems(1) k(2,3) by (auto simp: map_update list_update_same_conv)
    have da: "distinct (map e_id A)" using Cons.prems(1,2) by simp
    have cr': "comparable s ?A rest"
      unfolding comparable_def
    proof (intro ballI impI)
      fix e p assume e: "e \<in> set ?A" and p: "p \<in> set rest" and eq: "e_id p = e_id e"
      have "e \<in> set A"
      proof (rule ccontr)
        assume "e \<notin> set A"
        then have "e = pwd" using e set_update_subset_insert [of A k] by (auto split: if_splits)
        moreover have "e_id p \<in> set (map e_id rest)" using p by simp
        ultimately show False using eq nr by simp
      qed
      then show "\<exists>a b. fromisoformat s (e_updated_at p) = Some a \<and>
                 fromisoformat s (e_updated_at e) = Some b \<and> datetime_gt a b \<noteq> None"
        using cr p eq by (simp add: comparable_def)
    qed
    have step: "merge_passwords s ids (A @ B) (pwd # rest) =
                  merge_passwords s ids (?A @ B) rest"
      using True ix a b g lt k(2) by (simp add: list_update_append1 nth_append)
    have "merge_passwords s ids (?A @ B) rest =
            (True, map (reconcile s rest) ?A @ B @ filter (\<lambda>p. e_id p \<notin> set ids) rest)"
      using Cons.IH [OF ids' Cons.prems(2) dr cr'] .
    then show ?thesis
      using step True reconcile_step [OF da k(2,3) nr, of s] by simp
  qed
qed

lemma merge_passwords_merged:
  assumes "distinct (map e_id live)" and "distinct (map e_id imported)"
    and "comparable s live imported"
  shows "merge_passwords s (map e_id live) live imported = (True, merged_records s live imported)"
  using merge_passwords_eq [OF refl assms(1,2,3), of "[]"] by (simp add: merged_records_def)


lemma find_id_found: "find (\<lambda>p. e_id p = i) ps = Some p \<Longrightarrow> e_id p = i"
  by (induction ps) (auto split: if_splits)

lemma reconcile_id: "e_id (reconcile s imported e) = e_id e"
  by (auto simp: reconcile_def split: option.splits dest: find_id_found)

lemma merged_records_ids:
  "set (map e_id (merged_records s live imported)) =
     set (map e_id live) \<union> set (map e_id imported)"
  by (auto simp: merged_records_def reconcile_id image_iff)

lemma merged_records_distinct:
  assumes "distinct (map e_id live)" and "distinct (map e_id imported)"
  shows "distinct (map e_id (merged_records s live imported))"
proof -
  have m: "map e_id (map (reconcile s imported) live) = map e_id live"
    by (simp add: reconcile_id)
  have f: "distinct (map e_id (filter (\<lambda>p. e_id p \<notin> set (map e_id live)) imported))"
    using assms(2) by (rule distinct_map_filter)
  show ?thesis
    unfolding merged_records_def map_append m
    using assms(1) f by (force simp: image_iff)
qed

lemma find_id_Some:
  "distinct (map e_id ps) \<Longrightarrow> p \<in> set ps \<Longrightarrow> find (\<lambda>q. e_id q = e_id p) ps = Some p"
  by (induction ps) (auto simp: image_iff)

lemma merged_records_nth:
  assumes "distinct (map e_id imported)" and "i < length live" and "p \<in> set imported"
    and "e_id p = e_id (live ! i)"
  shows "merged_records s live imported ! i = (if later s p (live ! i) then p else live ! i)"
  using assms find_id_Some [OF assms(1,3)]
  by (simp add: merged_records_def nth_append reconcile_def)

lemma merged_records_nth_only_live:
  assumes "i < length live" and "e_id (live ! i) \<notin> set (map e_id imported)"
  shows "merged_records s live imported ! i = live ! i"
  using assms by (simp add: merged_records_def nth_append reconcile_def find_id_None)

lemma merge_data_merged:
  assumes "distinct (map e_id (passwords (data db)))" and "distinct (map e_id (passwords v))"
    and "comparable s (passwords (data db)) (passwords v)"
  shows "merge_data s db v =
           (True, set_passwords
                    (set_categories db (merge_categories (categories (data db)) (categories v)))
                    (merged_records s (passwords (data db)) (passwords v)))"
  using merge_passwords_merged [OF assms]
  by (simp add: merge_data_def Let_def set_categories_def)

text \<open>
  C5, amended. Let the import file decrypt and parse to a vault, let neither the live nor
  the imported records repeat an identifier, and let the timestamps of records with a
  shared identifier be parseable and comparable (both offset-naive or both offset-aware).
  Then after \<open>import_data\<close> the category names are the union of both lists (without
  duplicates when the live list had none), the identifiers are the union of both sides,
  each once, and the records are \<open>merged_records\<close>: a live record whose identifier is
  imported too is replaced, in place, exactly when the imported \<open>updated_at\<close> is strictly
  later, and is unchanged when it is earlier or equal; a live record whose identifier is
  not imported is unchanged. This holds whether or not the save that follows succeeds.
\<close>

theorem import_merges_by_recency:
  assumes "read_file s (fs w) import_path = Inr encrypted_data"
    and "generate_key s password (Some (take 16 encrypted_data)) = Some (k, sl)"
    and "decrypt s (drop 16 encrypted_data) k = Some decrypted_data"
    and "decrypted_data \<noteq> []"
    and "json_loads s decrypted_data = Some imported"
    and "distinct (map e_id (passwords (data db)))"
    and "distinct (map e_id (passwords imported))"
    and "comparable s (passwords (data db)) (passwords imported)"
    and "import_data s w db import_path password = (ok, db', w')"
  shows "set (categories (data db')) = set (categories (data db)) \<union> set (categories imported) \<and>
         (distinct (categories (data db)) \<longrightarrow> distinct (categories (data db'))) \<and>
         passwords (data db') = merged_records s (passwords (data db)) (passwords imported) \<and>
         set (map e_id (passwords (data db'))) =
           set (map e_id (passwords (data db))) \<union> set (map e_id (passwords imported)) \<and>
         distinct (map e_id (passwords (data db'))) \<and>
         (\<forall>i < length (passwords (data db)).
            (\<forall>p \<in> set (passwords imported). e_id p = e_id (passwords (data db) ! i) \<longrightarrow>
               passwords (data db') ! i =
                 (if later s p (passwords (data db) ! i) then p else passwords (data db) ! i)) \<and>
            (e_id (passwords (data db) ! i) \<notin> set (map e_id (passwords imported)) \<longrightarrow>
               passwords (data db') ! i = passwords (data db) ! i))"
proof -
  let ?m = "set_passwords
              (set_categories db (merge_categories (categories (data db)) (categories imported)))
              (merged_records s (passwords (data db)) (passwords imported))"
  have "save s w ?m = (ok, db', w')"
    using assms(1-5,9) merge_data_merged [OF assms(6,7,8)]
    by (simp add: import_data_def)
  then have "db' = ?m\<lparr>data := (data ?m)\<lparr>last_modified := Some (now_iso s)\<rparr>\<rparr>"
    by (rule save_data)
  then have c: "categories (data db') =
                  merge_categories (categories (data db)) (categories imported)"
    and p: "passwords (data db') = merged_records s (passwords (data db)) (passwords imported)"
    by (simp_all add: set_categories_def set_passwords_def)
  show ?thesis
    unfolding c p
    using assms(6,7)
    by (simp add: merge_categories_set merge_categories_distinct merged_records_ids
        merged_records_distinct merged_records_nth merged_records_nth_only_live
        del: set_map)
qed


theorem import_merges_by_recency_witness:
  "distinct (map e_id (passwords (data session))) \<and>
   distinct (map e_id (passwords exported_vault)) \<and>
   later importing bank_newer bank_entry \<and> \<not> later importing email_older email_entry \<and>
   passwords (data (fst (snd (import_data importing export_world session
                                 (py ''/home/u/export.db'') (py ''pw''))))) =
     [bank_newer, email_entry, wifi_entry] \<and>
   set (categories (data (fst (snd (import_data importing export_world session
                                 (py ''/home/u/export.db'') (py ''pw'')))))) =
     {py ''Bank'', py ''Email'', other, py ''Home''}"
proof -
  let ?enc = "replicate 16 2 @ (py ''pw'' @ replicate 16 2 @ replicate 14 0) @
                py ''<export>''"
  let ?k = "py ''pw'' @ replicate 16 2 @ replicate 14 0"
  let ?r = "import_data importing export_world session (py ''/home/u/export.db'') (py ''pw'')"
  have r: "read_file importing (fs export_world) (py ''/home/u/export.db'') = Inr ?enc"
    by (simp add: read_file_def export_world_def importing_def posix_def py_def)
  have g: "generate_key importing (py ''pw'') (Some (take 16 ?enc)) = Some (?k, replicate 16 2)"
    by (simp add: generate_key_def importing_def posix_def py_def utf8_char_def Let_def)
  have d: "decrypt importing (drop 16 ?enc) ?k = Some (py ''<export>'')"
    by (simp add: decrypt_def importing_def posix_def toy_decrypt_def py_def)
  have n: "py ''<export>'' \<noteq> []" by (simp add: py_def)
  have j: "json_loads importing (py ''<export>'') = Some exported_vault"
    by (simp add: importing_def posix_def)
  have ids: "e_id bank_entry = py ''1700000000001''" "e_id email_entry = py ''1700000000002''"
    "e_id bank_newer = py ''1700000000001''" "e_id email_older = py ''1700000000002''"
    "e_id wifi_entry = py ''1700000000003''"
    by (simp_all add: bank_newer_def email_older_def wifi_entry_def bank_entry_def
        email_entry_def)
  have ts: "e_updated_at bank_entry = py ''2024-01-01T09:00:00''"
    "e_updated_at email_entry = py ''2024-01-02T09:00:00''"
    "e_updated_at bank_newer = py ''2024-01-03T09:00:00''"
    "e_updated_at email_older = py ''2024-01-01T09:00:00''"
    by (simp_all add: bank_newer_def email_older_def bank_entry_def email_entry_def)
  have f: "fromisoformat importing = toy_fromisoformat"
    by (simp add: importing_def posix_def)
  have dl: "distinct (map e_id (passwords (data session)))"
    by (simp add: session_def ids py_def)
  have di: "distinct (map e_id (passwords exported_vault))"
    by (simp add: exported_vault_def ids py_def)
  have c: "comparable importing (passwords (data session)) (passwords exported_vault)"
    by (auto simp: comparable_def session_def exported_vault_def ids ts f
        toy_fromisoformat_def py_def)
  have e: "?r = (fst ?r, fst (snd ?r), snd (snd ?r))" by simp
  have l1: "later importing bank_newer bank_entry"
    by (simp add: later_def ts f toy_fromisoformat_def py_def)
  have l2: "\<not> later importing email_older email_entry"
    by (simp add: later_def ts f toy_fromisoformat_def py_def)
  have m: "merged_records importing (passwords (data session)) (passwords exported_vault) =
             [bank_newer, email_entry, wifi_entry]"
    by (simp add: merged_records_def reconcile_def session_def exported_vault_def ids l1 l2
        py_def)
  have cs: "set (categories (data session)) \<union> set (categories exported_vault) =
              {py ''Bank'', py ''Email'', other, py ''Home''}"
    by (auto simp: session_def exported_vault_def)
  note t = import_merges_by_recency [OF r g d n j dl di c e]
  have p: "passwords (data (fst (snd ?r))) = [bank_newer, email_entry, wifi_entry]"
    using t [THEN conjunct2, THEN conjunct2, THEN conjunct1] unfolding m .
  have q: "set (categories (data (fst (snd ?r)))) = {py ''Bank'', py ''Email'', other, py ''Home''}"
    using t [THEN conjunct1] unfolding cs .
  show ?thesis
    by (intro conjI) (rule dl, rule di, rule l1, rule l2, rule p, rule q)
qed

text \<open>
  Two \<open>add_password\<close> calls within one millisecond give two records the same
  identifier: the store itself produces vaults in which an identifier is repeated.
\<close>

lemma add_password_same_tick:
  "map e_id (passwords (data (fst (snd (add_password s w' (fst (snd (add_password s w db a))) b))))) =
     map e_id (passwords (data db)) @ [now_millis s, now_millis s]"
  by (simp add: add_password_def set_passwords_def Let_def)

lemma merge_data_split:
  "fst (merge_data s db v) =
     fst (merge_passwords s (map e_id (passwords (data db))) (passwords (data db)) (passwords v))"
  "passwords (data (snd (merge_data s db v))) =
     snd (merge_passwords s (map e_id (passwords (data db))) (passwords (data db)) (passwords v))"
  by (simp_all add: merge_data_def Let_def set_categories_def set_passwords_def
      split: prod.splits)

lemma import_data_parsed:
  assumes "read_file s (fs w) import_path = Inr encrypted_data"
    and "generate_key s password (Some (take 16 encrypted_data)) = Some (k, sl)"
    and "decrypt s (drop 16 encrypted_data) k = Some decrypted_data"
    and "decrypted_data \<noteq> []"
    and "json_loads s decrypted_data = Some imported"
  shows "import_data s w db import_path password =
           (if fst (merge_data s db imported)
            then save s w (snd (merge_data s db imported))
            else (False, snd (merge_data s db imported), w))"
  using assms by (simp add: import_data_def split: prod.splits)

text \<open>
  C5, as stated, fails, in two ways. First: the live record has an offset-naive
  \<open>updated_at\<close> and the imported record of the same identifier an offset-aware, later
  one. The comparison raises, \<open>import_data\<close> returns \<open>False\<close>, nothing is replaced and
  the imported record with a new identifier, which comes after it, is not added. Second:
  two live records share an identifier and the imported record of that identifier is
  strictly later than both. The loop replaces the first of them and stops, so the second
  stays as it was.
\<close>

theorem import_merge_counterexample:
  "fst (import_data importing_aware export_world session (py ''/home/u/export.db'') (py ''pw'')) =
     False \<and>
   passwords (data (fst (snd (import_data importing_aware export_world session
                                 (py ''/home/u/export.db'') (py ''pw''))))) =
     [bank_entry, email_entry] \<and>
   wifi_entry \<in> set (passwords aware_vault) \<and>
   e_id bank_twin = e_id bank_newer \<and> later importing bank_newer bank_twin \<and>
   bank_newer \<in> set (passwords exported_vault) \<and>
   passwords (data (fst (snd (import_data importing export_world twin_session
                                 (py ''/home/u/export.db'') (py ''pw''))))) =
     [bank_newer, bank_twin, wifi_entry, email_older]"
proof -
  let ?enc = "replicate 16 2 @ (py ''pw'' @ replicate 16 2 @ replicate 14 0) @
                py ''<export>''"
  let ?k = "py ''pw'' @ replicate 16 2 @ replicate 14 0"
  have ids: "e_id bank_entry = py ''1700000000001''" "e_id email_entry = py ''1700000000002''"
    "e_id bank_newer = py ''1700000000001''" "e_id email_older = py ''1700000000002''"
    "e_id wifi_entry = py ''1700000000003''" "e_id bank_aware = py ''1700000000001''"
    "e_id bank_twin = py ''1700000000001''"
    by (simp_all add: bank_newer_def email_older_def wifi_entry_def bank_entry_def
        email_entry_def bank_aware_def bank_twin_def)
  have ts: "fromisoformat posix (e_updated_at bank_entry) = Some (Naive 20240101090000)"
    "fromisoformat posix (e_updated_at bank_twin) = Some (Naive 20240101090000)"
    "fromisoformat posix (e_updated_at bank_newer) = Some (Naive 20240103090000)"
    "fromisoformat posix (e_updated_at bank_aware) = Some (Aware 20240103090000)"
    by (simp_all add: bank_newer_def bank_entry_def bank_aware_def bank_twin_def posix_def
        toy_fromisoformat_def py_def)
  have fa: "fromisoformat importing_aware = fromisoformat posix"
    and fi: "fromisoformat importing = fromisoformat posix"
    by (simp_all add: importing_aware_def importing_def)
  have ra: "read_file importing_aware (fs export_world) (py ''/home/u/export.db'') = Inr ?enc"
    and ri: "read_file importing (fs export_world) (py ''/home/u/export.db'') = Inr ?enc"
    by (simp_all add: read_file_def export_world_def importing_aware_def importing_def
        posix_def py_def)
  have ga: "generate_key importing_aware (py ''pw'') (Some (take 16 ?enc)) =
              Some (?k, replicate 16 2)"
    and gi: "generate_key importing (py ''pw'') (Some (take 16 ?enc)) =
              Some (?k, replicate 16 2)"
    by (simp_all add: generate_key_def importing_aware_def importing_def posix_def py_def
        utf8_char_def Let_def)
  have da: "decrypt importing_aware (drop 16 ?enc) ?k = Some (py ''<export>'')"
    and di: "decrypt importing (drop 16 ?enc) ?k = Some (py ''<export>'')"
    by (simp_all add: decrypt_def importing_aware_def importing_def posix_def toy_decrypt_def
        py_def)
  have n: "py ''<export>'' \<noteq> []" by (simp add: py_def)
  have ja: "json_loads importing_aware (py ''<export>'') = Some aware_vault"
    and ji: "json_loads importing (py ''<export>'') = Some exported_vault"
    by (simp_all add: importing_aware_def importing_def)
  have ma: "merge_passwords importing_aware (map e_id [bank_entry, email_entry])
              [bank_entry, email_entry] [bank_aware, wifi_entry] =
            (False, [bank_entry, email_entry])"
    by (simp add: ids ts fa py_def)
  have mi: "merge_passwords importing (map e_id [bank_entry, bank_twin])
              [bank_entry, bank_twin] [bank_newer, wifi_entry, email_older] =
            (True, [bank_newer, bank_twin, wifi_entry, email_older])"
    by (simp add: ids ts fi py_def)
  have ps: "passwords (data session) = [bank_entry, email_entry]"
    "passwords (data twin_session) = [bank_entry, bank_twin]"
    "passwords aware_vault = [bank_aware, wifi_entry]"
    "passwords exported_vault = [bank_newer, wifi_entry, email_older]"
    by (simp_all add: session_def twin_session_def set_passwords_def aware_vault_def
        exported_vault_def)
  have fa': "fst (merge_data importing_aware session aware_vault) = False"
    and pa: "passwords (data (snd (merge_data importing_aware session aware_vault))) =
               [bank_entry, email_entry]"
    unfolding merge_data_split ps ma by simp_all
  have fi': "fst (merge_data importing twin_session exported_vault) = True"
    and pi: "passwords (data (snd (merge_data importing twin_session exported_vault))) =
               [bank_newer, bank_twin, wifi_entry, email_older]"
    unfolding merge_data_split ps mi by simp_all
  have a: "import_data importing_aware export_world session (py ''/home/u/export.db'')
             (py ''pw'') =
           (False, snd (merge_data importing_aware session aware_vault), export_world)"
    using import_data_parsed [OF ra ga da n ja, of session] fa' by simp
  have b: "import_data importing export_world twin_session (py ''/home/u/export.db'')
             (py ''pw'') =
           save importing export_world (snd (merge_data importing twin_session exported_vault))"
    using import_data_parsed [OF ri gi di n ji, of twin_session] fi' by simp
  have l: "later importing bank_newer bank_twin"
    by (simp add: later_def fi ts)
  have i: "e_id bank_twin = e_id bank_newer" by (simp add: ids)
  show ?thesis
    unfolding a b
    using l i pa pi by (simp add: save_db ps)
qed

subsection \<open>Encrypt, then decrypt\<close>

lemma split2: "(c::nat) = (c div 64) * 64 + c mod 64"
  by simp

lemma split3: "(c::nat) = (c div 4096) * 4096 + ((c div 64) mod 64) * 64 + c mod 64"
proof -
  have "c mod (64 * 64) = 64 * (c div 64 mod 64) + c mod 64" by (rule mod_mult2_eq)
  then have m: "c mod 4096 = (c div 64 mod 64) * 64 + c mod 64" by (simp add: mult.commute)
  have "c = (c div 4096) * 4096 + c mod 4096" by simp
  then show ?thesis unfolding m by (simp only: add.assoc)
qed

lemma split4:
  "(c::nat) = (c div 262144) * 262144 + ((c div 4096) mod 64) * 4096 +
              ((c div 64) mod 64) * 64 + c mod 64"
proof -
  have "c mod (4096 * 64) = 4096 * (c div 4096 mod 64) + c mod 4096" by (rule mod_mult2_eq)
  then have m: "c mod 262144 = (c div 4096 mod 64) * 4096 + c mod 4096"
    by (simp add: mult.commute)
  have "c mod (64 * 64) = 64 * (c div 64 mod 64) + c mod 64" by (rule mod_mult2_eq)
  then have n: "c mod 4096 = (c div 64 mod 64) * 64 + c mod 64" by (simp add: mult.commute)
  have "c = (c div 262144) * 262144 + c mod 262144" by simp
  then show ?thesis unfolding m n by (simp only: add.assoc)
qed

lemma utf8_char_decode:
  assumes "utf8_char c = Some b"
  shows "utf8_decode (b @ rest) = map_option ((#) c) (utf8_decode rest)"
proof -
  consider (one) "c < 128" | (two) "128 \<le> c" "c < 2048"
    | (three) "2048 \<le> c" "c < 65536" "\<not> (55296 \<le> c \<and> c \<le> 57343)"
    | (four) "65536 \<le> c" "c < 1114112"
    using assms by (auto simp: utf8_char_def split: if_splits)
  then show ?thesis
  proof cases
    case one
    then show ?thesis using assms by (auto simp: utf8_char_def)
  next
    case two
    then have b: "b = [192 + c div 64, 128 + c mod 64]"
      using assms by (auto simp: utf8_char_def)
    have "128 div 64 \<le> c div 64" using two(1) by (rule div_le_mono)
    then have lo: "2 \<le> c div 64" by simp
    have hi: "c div 64 < 32" using two(2) by (simp add: div_less_iff_less_mult)
    have m: "c mod 64 < 64" by simp
    have v: "c div 64 * 64 + c mod 64 = c" by simp
    show ?thesis unfolding b using lo hi m v by (simp add: continuation_def)
  next
    case three
    then have b: "b = [224 + c div 4096, 128 + (c div 64) mod 64, 128 + c mod 64]"
      using assms by (auto simp: utf8_char_def)
    have hi: "c div 4096 < 16" using three(2) by (simp add: div_less_iff_less_mult)
    have v: "c div 4096 * 4096 + (c div 64) mod 64 * 64 + c mod 64 = c"
      using split3 [of c] by simp
    show ?thesis unfolding b using hi v three by (simp add: continuation_def Let_def)
  next
    case four
    then have b: "b = [240 + c div 262144, 128 + (c div 4096) mod 64,
                       128 + (c div 64) mod 64, 128 + c mod 64]"
      using assms by (auto simp: utf8_char_def)
    have hi: "c div 262144 < 5" using four(2) by (simp add: div_less_iff_less_mult)
    have v: "c div 262144 * 262144 + (c div 4096) mod 64 * 4096 + (c div 64) mod 64 * 64 +
             c mod 64 = c"
      using split4 [of c] by simp
    show ?thesis unfolding b using hi v four by (simp add: continuation_def Let_def)
  qed
qed

lemma utf8_roundtrip: "utf8_encode t = Some b \<Longrightarrow> utf8_decode b = Some t"
proof (induction t arbitrary: b)
  case Nil
  then show ?case by simp
next
  case (Cons c t)
  then obtain bc bt where bc: "utf8_char c = Some bc" and bt: "utf8_encode t = Some bt"
    and b: "b = bc @ bt"
    by (auto split: option.splits)
  show ?case unfolding b using utf8_char_decode [OF bc, of bt] Cons.IH [OF bt] by simp
qed

lemma encodable_encodes: "encodable t \<Longrightarrow> \<exists>b. utf8_encode t = Some b"
proof (induction t)
  case Nil
  then show ?case by simp
next
  case (Cons c t)
  then obtain bt where "utf8_encode t = Some bt" by (auto simp: encodable_def)
  moreover have "utf8_char c \<noteq> None" using Cons.prems by (auto simp: encodable_def utf8_char_def)
  ultimately show ?case by auto
qed

text \<open>
  C2. For every secret and every plaintext that can be encoded as UTF-8, and every salt:
  the key derived from the secret and the salt encrypts the plaintext to a token, and
  decrypting that token with the same key returns exactly the plaintext. The \<open>Fernet\<close>
  and \<open>PBKDF2HMAC\<close> primitives are taken as sound; what is proved of the code is that
  \<open>generate_key\<close> hands \<open>Fernet\<close> a key it accepts and that \<open>encode\<close> and \<open>decode\<close>
  around the cipher are inverse.
\<close>

theorem encrypt_decrypt_roundtrip:
  assumes "fernet_sound s" and "pbkdf2_sound s" and "encodable S" and "encodable V"
  shows "\<exists>k token. generate_key s S (Some salt16) = Some (k, salt16) \<and>
           encrypt s V k = Some token \<and> decrypt s token k = Some V"
proof -
  obtain pw where pw: "utf8_encode S = Some pw" using encodable_encodes [OF assms(3)] by blast
  obtain b where b: "utf8_encode V = Some b" using encodable_encodes [OF assms(4)] by blast
  let ?raw = "pbkdf2 s pw salt16"
  let ?k = "urlsafe_b64encode s ?raw"
  have g: "generate_key s S (Some salt16) = Some (?k, salt16)"
    using pw by (simp add: generate_key_def)
  have "length ?raw = 32" using assms(2) by (simp add: pbkdf2_sound_def)
  then obtain token where e: "fernet_encrypt s ?k (nonce s) b = Some token"
    and d: "fernet_decrypt s ?k token = Some b"
    using assms(1) unfolding fernet_sound_def by blast
  have "encrypt s V ?k = Some token" using b e by (simp add: encrypt_def)
  moreover have "decrypt s token ?k = Some V"
    using d utf8_roundtrip [OF b] by (simp add: decrypt_def)
  ultimately show ?thesis using g by blast
qed


theorem encrypt_decrypt_roundtrip_witness:
  "fernet_sound posix \<and> pbkdf2_sound posix \<and> encodable (py ''JBSWY3DPEHPK3PXP'') \<and>
   encodable [123, 233, 20854, 128512, 125] \<and>
   (\<exists>token. encrypt posix [123, 233, 20854, 128512, 125]
               (py ''JBSWY3DPEHPK3PXP'' @ replicate 16 1) = Some token \<and>
            decrypt posix token (py ''JBSWY3DPEHPK3PXP'' @ replicate 16 1) =
              Some [123, 233, 20854, 128512, 125])"
proof -
  have f: "fernet_sound posix"
    by (simp add: fernet_sound_def posix_def toy_encrypt_def toy_decrypt_def)
  have p: "pbkdf2_sound posix" by (auto simp: pbkdf2_sound_def posix_def)
  have s: "encodable (py ''JBSWY3DPEHPK3PXP'')" by (simp add: encodable_def py_def)
  have v: "encodable [123, 233, 20854, 128512, 125]" by (simp add: encodable_def)
  have g: "generate_key posix (py ''JBSWY3DPEHPK3PXP'') (Some (replicate 16 1)) =
             Some (py ''JBSWY3DPEHPK3PXP'' @ replicate 16 1, replicate 16 1)"
    by (simp add: generate_key_def posix_def py_def utf8_char_def Let_def)
  show ?thesis
    using f p s v encrypt_decrypt_roundtrip [OF f p s v, of "replicate 16 1"] g by auto
qed

end
